theory Spec2Isabelle
  imports Complex_Main
begin

section \<open>JavaScript values\<close>

text \<open>
  A JavaScript number: a finite double, kept as the rational number it is, or one of the
  three special values. The sign of zero is not represented.
\<close>

datatype js_num = Fin rat | NaN | PosInf | NegInf

definition is_integer :: "rat \<Rightarrow> bool" where
  "is_integer r = (of_int \<lfloor>r\<rfloor> = r)"

text \<open>\<open>Number.MAX_SAFE_INTEGER\<close>, which is \<open>2^53 - 1\<close>: every integer up to it in
  magnitude is a double.\<close>

definition MAX_SAFE_INTEGER :: int where
  "MAX_SAFE_INTEGER = 9007199254740991"

definition safe_integer :: "rat \<Rightarrow> bool" where
  "safe_integer r = (is_integer r \<and> \<bar>r\<bar> \<le> of_int MAX_SAFE_INTEGER)"

text \<open>The comparison \<open>a > b\<close> on numbers: false as soon as one side is NaN.\<close>

fun js_gt :: "js_num \<Rightarrow> js_num \<Rightarrow> bool" where
  "js_gt NaN _ = False"
| "js_gt _ NaN = False"
| "js_gt (Fin a) (Fin b) = (b < a)"
| "js_gt (Fin a) PosInf = False"
| "js_gt (Fin a) NegInf = True"
| "js_gt PosInf PosInf = False"
| "js_gt PosInf _ = True"
| "js_gt NegInf _ = False"

text \<open>A parsed JSON value. \<open>undefined\<close> is the \<open>None\<close> of an option around it.\<close>

datatype json =
    JNull
  | JBool bool
  | JNum js_num
  | JStr string
  | JArr "json list"
  | JObj "(string \<times> json) list"

datatype exn =
    Error json          \<comment> \<open>\<open>new Error(m)\<close>; the message before its coercion to a string\<close>
  | TypeError           \<comment> \<open>a property read on \<open>null\<close>\<close>
  | FetchRejected string \<comment> \<open>\<open>fetch\<close> rejected: no response at all\<close>
  | SyntaxError         \<comment> \<open>\<open>response.json()\<close> or \<open>JSON.parse\<close> on text that is not JSON\<close>
  | InvalidCharacterError \<comment> \<open>\<open>atob\<close> on text that is not base64\<close>

text \<open>
  Reading a property \<open>v.k\<close> for the names the program reads (\<open>code\<close>, \<open>message\<close>,
  \<open>success\<close>, \<open>exp\<close>): a TypeError on \<open>null\<close>, the member of an object, and
  \<open>undefined\<close> on every other value.
\<close>

fun get_prop :: "json \<Rightarrow> string \<Rightarrow> exn + json option" where
  "get_prop JNull k = Inl TypeError"
| "get_prop (JObj kvs) k = Inr (map_of kvs k)"
| "get_prop _ k = Inr None"

fun truthy :: "json option \<Rightarrow> bool" where
  "truthy None = False"
| "truthy (Some JNull) = False"
| "truthy (Some (JBool b)) = b"
| "truthy (Some (JNum n)) = (n \<noteq> NaN \<and> n \<noteq> Fin 0)"
| "truthy (Some (JStr s)) = (s \<noteq> [])"
| "truthy (Some _) = True"

text \<open>\<open>s.startsWith(p)\<close> and \<open>s.includes(p)\<close> on strings.\<close>

definition startsWith :: "string \<Rightarrow> string \<Rightarrow> bool" where
  "startsWith s p = (take (length p) s = p)"

fun str_includes :: "string \<Rightarrow> string \<Rightarrow> bool" where
  "str_includes [] p = (p = [])"
| "str_includes (c # cs) p = (startsWith (c # cs) p \<or> str_includes cs p)"

text \<open>
  The built-in functions of the platform that the program calls and that are not part of
  its sources. They are parameters of the model: every theorem holds whatever they compute.
\<close>

record builtins =
  StringToNumber :: "string \<Rightarrow> js_num"
    \<comment> \<open>the numeric coercion of a string, as in \<open>limit * 1\<close>\<close>
  parseInt :: "string \<Rightarrow> js_num"
  NumberToString :: "js_num \<Rightarrow> string"
  ObjectToString :: "json \<Rightarrow> string"
    \<comment> \<open>the string an array or an object is turned into before a numeric coercion\<close>
  atob :: "string \<Rightarrow> string option"
    \<comment> \<open>\<open>None\<close>: \<open>atob\<close> throws\<close>
  JSON_parse :: "string \<Rightarrow> json option"
    \<comment> \<open>\<open>None\<close>: \<open>JSON.parse\<close> throws\<close>
  RegExp_i :: "string \<Rightarrow> (string \<Rightarrow> bool) option"
    \<comment> \<open>the case-insensitive matcher of a pattern; \<open>None\<close>: the pattern is rejected\<close>
  float_mul :: "rat \<Rightarrow> rat \<Rightarrow> js_num"
    \<comment> \<open>\<open>a * b\<close> on finite doubles, rounded\<close>
  float_sub :: "rat \<Rightarrow> rat \<Rightarrow> js_num"
    \<comment> \<open>\<open>a - b\<close> on finite doubles, rounded\<close>
  float_ceil_div :: "rat \<Rightarrow> rat \<Rightarrow> js_num"
    \<comment> \<open>\<open>Math.ceil(a / b)\<close> on finite doubles, \<open>b\<close> not zero\<close>

text \<open>
  Arithmetic on doubles rounds. The product and the difference of two integers are exact
  when the result is a safe integer, a product with 0 or 1 and a difference with 0 are
  exact whatever the other operand is, and there the model computes them; everywhere else
  the rounded result is the platform's, a parameter.
\<close>

definition exact_product :: "rat \<Rightarrow> rat \<Rightarrow> bool" where
  "exact_product a b =
     (a = 0 \<or> b = 0 \<or> a = 1 \<or> b = 1 \<or>
      (is_integer a \<and> is_integer b \<and> safe_integer (a * b)))"

definition exact_difference :: "rat \<Rightarrow> rat \<Rightarrow> bool" where
  "exact_difference a b =
     (b = 0 \<or> (safe_integer a \<and> safe_integer b \<and> safe_integer (a - b)))"

fun js_mul :: "builtins \<Rightarrow> js_num \<Rightarrow> js_num \<Rightarrow> js_num" where
  "js_mul B NaN _ = NaN"
| "js_mul B _ NaN = NaN"
| js_mul_Fin: "js_mul B (Fin a) (Fin b) = (if exact_product a b then Fin (a * b) else float_mul B a b)"
| "js_mul B (Fin a) PosInf = (if a = 0 then NaN else if 0 < a then PosInf else NegInf)"
| "js_mul B (Fin a) NegInf = (if a = 0 then NaN else if 0 < a then NegInf else PosInf)"
| "js_mul B PosInf (Fin b) = (if b = 0 then NaN else if 0 < b then PosInf else NegInf)"
| "js_mul B NegInf (Fin b) = (if b = 0 then NaN else if 0 < b then NegInf else PosInf)"
| "js_mul B PosInf PosInf = PosInf"
| "js_mul B PosInf NegInf = NegInf"
| "js_mul B NegInf PosInf = NegInf"
| "js_mul B NegInf NegInf = PosInf"

fun js_sub :: "builtins \<Rightarrow> js_num \<Rightarrow> js_num \<Rightarrow> js_num" where
  "js_sub B NaN _ = NaN"
| "js_sub B _ NaN = NaN"
| js_sub_Fin: "js_sub B (Fin a) (Fin b) = (if exact_difference a b then Fin (a - b) else float_sub B a b)"
| "js_sub B (Fin a) PosInf = NegInf"
| "js_sub B (Fin a) NegInf = PosInf"
| "js_sub B PosInf PosInf = NaN"
| "js_sub B PosInf _ = PosInf"
| "js_sub B NegInf NegInf = NaN"
| "js_sub B NegInf _ = NegInf"

declare js_mul_Fin [simp del] js_sub_Fin [simp del]

text \<open>
  \<open>Math.ceil(a / b)\<close>. A quotient by zero is infinite, or NaN for \<open>0 / 0\<close>. For safe
  integers the double quotient is the exact quotient rounded to the nearest double; it is
  an integer only when the exact quotient is one, so its ceiling is the ceiling of the
  exact quotient, which the model computes. Everywhere else the value is the platform's.
\<close>

fun Math_ceil_div :: "builtins \<Rightarrow> js_num \<Rightarrow> js_num \<Rightarrow> js_num" where
  "Math_ceil_div B NaN _ = NaN"
| "Math_ceil_div B _ NaN = NaN"
| "Math_ceil_div B (Fin a) (Fin b) =
     (if b = 0 then (if a = 0 then NaN else if 0 < a then PosInf else NegInf)
      else if safe_integer a \<and> safe_integer b then Fin (of_int \<lceil>a / b\<rceil>)
      else float_ceil_div B a b)"
| "Math_ceil_div B (Fin a) _ = Fin 0"
| "Math_ceil_div B PosInf (Fin b) = (if 0 \<le> b then PosInf else NegInf)"
| "Math_ceil_div B NegInf (Fin b) = (if 0 \<le> b then NegInf else PosInf)"
| "Math_ceil_div B _ _ = NaN"

fun ToNumber :: "builtins \<Rightarrow> json option \<Rightarrow> js_num" where
  "ToNumber B None = NaN"
| "ToNumber B (Some JNull) = Fin 0"
| "ToNumber B (Some (JBool b)) = (if b then Fin 1 else Fin 0)"
| "ToNumber B (Some (JNum n)) = n"
| "ToNumber B (Some (JStr s)) = StringToNumber B s"
| "ToNumber B (Some v) = StringToNumber B (ObjectToString B v)"

section \<open>The account store\<close>

text \<open>
  Modelled from the spec: the account schema (\<open>models/User\<close>) is not among the sources.
  An account has an identifier, name, email, password hash, role, active flag and
  last-login timestamp. \<open>u_password = None\<close> is a document read with
  \<open>select('-password')\<close>.
\<close>

record user_doc =
  u_id :: string
  u_name :: string
  u_email :: string
  u_password :: "string option"
  u_role :: string
  u_isActive :: bool
  u_lastLogin :: "int option"
  u_createdAt :: int


datatype db_error = DbError string

text \<open>
  Modelled from the spec: the template schema (\<open>models/Template\<close>) is not among the
  sources. A template has an identifier, name, subject, owner reference, visibility flag,
  premium flag, category, active flag and creation time. The owner reference is an account
  identifier in the store and the populated owner in a reply, hence the type parameter.
\<close>

record 'c template =
  t_id :: string
  t_name :: string
  t_subject :: string
  t_category :: string
  t_isPublic :: bool
  t_isPremium :: bool
  t_isActive :: bool
  t_createdBy :: 'c
  t_createdAt :: int

text \<open>
  The document store: two collections, and whether the store answers at all (every
  operation on a store that is down rejects, which the handlers catch).
\<close>

record db =
  db_up :: bool
  users :: "user_doc list"
  templates :: "string template list"

definition store_down :: db_error where
  "store_down = DbError ''store unavailable''"

definition User_findById :: "db \<Rightarrow> string \<Rightarrow> db_error + user_doc option" where
  "User_findById d uid =
     (if db_up d then Inr (find (\<lambda>u. u_id u = uid) (users d)) else Inl store_down)"

definition select_no_password :: "user_doc \<Rightarrow> user_doc" where
  "select_no_password u = u\<lparr>u_password := None\<rparr>"

section \<open>Session Guard: \<open>server/middleware/auth.js\<close>\<close>

record jwt_payload =
  userId :: string
  role :: string

text \<open>
  \<open>jwt.verify(token, secret)\<close> is a library call: it returns the decoded payload or
  throws an error that has a \<open>name\<close>. It is a parameter of the guard.
\<close>

datatype verify_result = Decoded jwt_payload | Throws string

type_synonym jwt_verify = "string \<Rightarrow> string \<Rightarrow> verify_result"

record principal =
  p_userId :: string
  p_role :: string
  p_userDoc :: user_doc

record http_reply =
  rp_status :: nat
  rp_json :: json

text \<open>
  What one run of the guard leaves behind: the reply it sent (if any), the principal it
  attached to the request (if any), whether it called \<open>next()\<close>, and the identifiers it
  looked up in the account store, in order.
\<close>

record auth_run =
  sent :: "http_reply option"
  req_user :: "principal option"
  next_called :: bool
  store_reads :: "string list"

definition reject :: "nat \<Rightarrow> (string \<times> json) list \<Rightarrow> string list \<Rightarrow> auth_run" where
  "reject st body reads =
     \<lparr>sent = Some \<lparr>rp_status = st, rp_json = JObj body\<rparr>, req_user = None,
      next_called = False, store_reads = reads\<rparr>"

definition no_token_body :: "(string \<times> json) list" where
  "no_token_body =
     [(''success'', JBool False), (''message'', JStr ''Access denied. No token provided.'')]"

definition token_expired_body :: "(string \<times> json) list" where
  "token_expired_body =
     [(''success'', JBool False), (''message'', JStr ''Token expired. Please log in again.''),
      (''code'', JStr ''TOKEN_EXPIRED'')]"

definition invalid_token_body :: "(string \<times> json) list" where
  "invalid_token_body =
     [(''success'', JBool False), (''message'', JStr ''Invalid token.''),
      (''code'', JStr ''INVALID_TOKEN'')]"

definition user_not_found_body :: "(string \<times> json) list" where
  "user_not_found_body =
     [(''success'', JBool False), (''message'', JStr ''User not found.''),
      (''code'', JStr ''USER_NOT_FOUND'')]"

definition account_deactivated_body :: "(string \<times> json) list" where
  "account_deactivated_body =
     [(''success'', JBool False), (''message'', JStr ''Account is deactivated.''),
      (''code'', JStr ''ACCOUNT_DEACTIVATED'')]"

definition auth_error_body :: "(string \<times> json) list" where
  "auth_error_body =
     [(''success'', JBool False), (''message'', JStr ''Authentication error.''),
      (''code'', JStr ''AUTH_ERROR'')]"

text \<open>
  \<open>authHeader?.startsWith('Bearer ') ? authHeader.slice(7) : authHeader\<close>: the header
  without its prefix when it has one, and the header itself otherwise (\<open>None\<close> when the
  header is absent).
\<close>

definition extract_token :: "string option \<Rightarrow> string option" where
  "extract_token authHeader =
     (case authHeader of
        None \<Rightarrow> None
      | Some h \<Rightarrow> if startsWith h ''Bearer '' then Some (drop 7 h) else Some h)"

text \<open>\<open>process.env.JWT_SECRET || 'fallback-secret'\<close>\<close>

definition jwt_secret :: "string option \<Rightarrow> string" where
  "jwt_secret JWT_SECRET =
     (case JWT_SECRET of
        None \<Rightarrow> ''fallback-secret''
      | Some s \<Rightarrow> if s = [] then ''fallback-secret'' else s)"

definition auth :: "jwt_verify \<Rightarrow> string option \<Rightarrow> db \<Rightarrow> string option \<Rightarrow> auth_run" where
  "auth verify JWT_SECRET d authHeader =
     (case extract_token authHeader of
        None \<Rightarrow> reject 401 no_token_body []
      | Some token \<Rightarrow>
          if token = [] then reject 401 no_token_body []
          else
            (case verify token (jwt_secret JWT_SECRET) of
               Throws name \<Rightarrow>
                 if name = ''TokenExpiredError'' then reject 401 token_expired_body []
                 else reject 401 invalid_token_body []
             | Decoded decoded \<Rightarrow>
                 (case User_findById d (userId decoded) of
                    Inl e \<Rightarrow> reject 500 auth_error_body [userId decoded]
                  | Inr None \<Rightarrow> reject 401 user_not_found_body [userId decoded]
                  | Inr (Some u) \<Rightarrow>
                      (let user = select_no_password u in
                       if \<not> u_isActive user
                       then reject 401 account_deactivated_body [userId decoded]
                       else
                         \<lparr>sent = None,
                          req_user = Some \<lparr>p_userId = userId decoded, p_role = role decoded,
                                            p_userDoc = user\<rparr>,
                          next_called = True,
                          store_reads = [userId decoded]\<rparr>))))"

section \<open>Client API Gateway: \<open>ApiService\<close>\<close>

text \<open>The gateway's state: its \<open>token\<close> field and the browser's \<open>localStorage\<close>.\<close>

record client =
  token :: "string option"
  localStorage :: "string \<rightharpoonup> string"

record options =
  opt_method :: "string option"
  opt_body :: "string option"
  opt_headers :: "(string \<rightharpoonup> string) option"

record config =
  cfg_headers :: "string \<rightharpoonup> string"
  cfg_method :: "string option"
  cfg_body :: "string option"

text \<open>
  What \<open>fetch\<close> hands back, as far as \<open>request\<close> reads it: the status, the
  \<open>content-type\<close> header, and the outcome of \<open>response.json()\<close> (\<open>None\<close> when the body
  does not parse). \<open>response.ok\<close> is a status from 200 to 299.
\<close>

record response =
  status :: nat
  content_type :: "string option"
  json_result :: "json option"

datatype fetch_result = Rejected string | Resolved response

definition ok :: "response \<Rightarrow> bool" where
  "ok r = (200 \<le> status r \<and> status r \<le> 299)"

definition ApiService_new :: "(string \<rightharpoonup> string) \<Rightarrow> client" where
  "ApiService_new storage = \<lparr>token = storage ''authToken'', localStorage = storage\<rparr>"

definition logout :: "client \<Rightarrow> client" where
  "logout c = c\<lparr>token := None, localStorage := (localStorage c)(''authToken'' := None)\<rparr>"

text \<open>
  The \<open>config\<close> of a call. The merged headers are the content type, the bearer token when
  the field holds a non-empty one, and the caller's headers on top; spreading
  \<open>options\<close> afterwards puts the caller's \<open>headers\<close> object, when there is one, in
  their place.
\<close>

definition merged_headers :: "client \<Rightarrow> options \<Rightarrow> (string \<rightharpoonup> string)" where
  "merged_headers c opts =
     ([''Content-Type'' \<mapsto> ''application/json'']
        ++ (case token c of
              None \<Rightarrow> Map.empty
            | Some t \<Rightarrow> if t = [] then Map.empty else [''Authorization'' \<mapsto> ''Bearer '' @ t])
        ++ (case opt_headers opts of None \<Rightarrow> Map.empty | Some h \<Rightarrow> h))"

definition request_config :: "client \<Rightarrow> options \<Rightarrow> config" where
  "request_config c opts =
     \<lparr>cfg_headers = (case opt_headers opts of None \<Rightarrow> merged_headers c opts | Some h \<Rightarrow> h),
      cfg_method = opt_method opts,
      cfg_body = opt_body opts\<rparr>"

function show_nat :: "nat \<Rightarrow> string" where
  "show_nat n =
     (if n < 10 then [''0123456789'' ! n]
      else show_nat (n div 10) @ [''0123456789'' ! (n mod 10)])"
  by pat_completeness auto
termination
  by (relation "measure id") auto

declare show_nat.simps [simp del]

text \<open>\<open>a || b\<close> where \<open>a\<close> is a property that was read and \<open>b\<close> a string.\<close>

definition or_else :: "json option \<Rightarrow> string \<Rightarrow> json" where
  "or_else a b = (case a of None \<Rightarrow> JStr b | Some v \<Rightarrow> if truthy (Some v) then v else JStr b)"

definition is_json_type :: "string option \<Rightarrow> bool" where
  "is_json_type contentType =
     (case contentType of None \<Rightarrow> False | Some ct \<Rightarrow> str_includes ct ''application/json'')"

text \<open>
  \<open>ApiService.request\<close>: the value it resolves to or the error it throws, and the
  gateway's state afterwards.
\<close>

definition request ::
  "(string \<Rightarrow> config \<Rightarrow> fetch_result) \<Rightarrow> string \<Rightarrow> client \<Rightarrow> string \<Rightarrow> options
     \<Rightarrow> (exn + json) \<times> client" where
  "request fetch API_BASE_URL c endpoint opts =
     (case fetch (API_BASE_URL @ endpoint) (request_config c opts) of
        Rejected e \<Rightarrow> (Inl (FetchRejected e), c)
      | Resolved r \<Rightarrow>
          if \<not> is_json_type (content_type r)
          then (Inl (Error (JStr ''Server returned invalid response format'')), c)
          else
            (case json_result r of
               None \<Rightarrow> (Inl SyntaxError, c)
             | Some data \<Rightarrow>
                 if \<not> ok r then
                   (if status r = 401 then
                      (let c' = logout c in
                       case get_prop data ''code'' of
                         Inl e \<Rightarrow> (Inl e, c')
                       | Inr code \<Rightarrow>
                           if code = Some (JStr ''TOKEN_EXPIRED'')
                           then (Inl (Error (JStr ''Your session has expired. Please log in again.'')), c')
                           else (Inl (Error (JStr ''Authentication failed. Please log in again.'')), c'))
                    else
                      (case get_prop data ''message'' of
                         Inl e \<Rightarrow> (Inl e, c)
                       | Inr m \<Rightarrow>
                           (Inl (Error (or_else m (''HTTP error! status: '' @ show_nat (status r)))), c)))
                 else
                   (case get_prop data ''success'' of
                      Inl e \<Rightarrow> (Inl e, c)
                    | Inr s \<Rightarrow>
                        if s = Some (JBool False)
                        then
                          (case get_prop data ''message'' of
                             Inl e \<Rightarrow> (Inl e, c)
                           | Inr m \<Rightarrow> (Inl (Error (or_else m ''Operation failed'')), c))
                        else (Inr data, c))))"


text \<open>\<open>s.split(c)\<close> for a one-character separator: never an empty list.\<close>

fun split_on :: "char \<Rightarrow> string \<Rightarrow> string list" where
  "split_on c [] = [[]]"
| "split_on c (x # xs) =
     (if x = c then [] # split_on c xs
      else (case split_on c xs of [] \<Rightarrow> [[x]] | p # ps \<Rightarrow> (x # p) # ps))"

text \<open>
  \<open>this.token.split('.')[1]\<close> as the argument of \<open>atob\<close>: the second segment, and
  the text \<open>undefined\<close> when there is none.
\<close>

definition payload_segment :: "string \<Rightarrow> string" where
  "payload_segment t = (case split_on CHR ''.'' t of _ # p # _ \<Rightarrow> p | _ \<Rightarrow> ''undefined'')"

text \<open>The body of the \<open>try\<close> block of \<open>isAuthenticated\<close>, with what it throws.\<close>

definition isAuthenticated_try :: "builtins \<Rightarrow> int \<Rightarrow> string \<Rightarrow> exn + bool" where
  "isAuthenticated_try B now t =
     (case atob B (payload_segment t) of
        None \<Rightarrow> Inl InvalidCharacterError
      | Some txt \<Rightarrow>
          (case JSON_parse B txt of
             None \<Rightarrow> Inl SyntaxError
           | Some payload \<Rightarrow>
               (case get_prop payload ''exp'' of
                  Inl e \<Rightarrow> Inl e
                | Inr ex \<Rightarrow> Inr (js_gt (js_mul B (ToNumber B ex) (Fin 1000)) (Fin (of_int now))))))"

definition isAuthenticated :: "builtins \<Rightarrow> int \<Rightarrow> client \<Rightarrow> exn + bool" where
  "isAuthenticated B now c =
     (case token c of
        None \<Rightarrow> Inr False
      | Some t \<Rightarrow>
          if t = [] then Inr False
          else (case isAuthenticated_try B now t of Inl e \<Rightarrow> Inr False | Inr b \<Rightarrow> Inr b))"

section \<open>Queries on the store\<close>

text \<open>
  The filter objects the routes build. A field that is \<open>None\<close> is absent from the
  filter; \<open>tq_or\<close> is the pattern of the \<open>$or\<close> of two case-insensitive \<open>$regex\<close>
  conditions.
\<close>

record template_query =
  tq_isActive :: "bool option"
  tq_or :: "string option"
  tq_category :: "string option"
  tq_isPublic :: "bool option"
  tq_isPremium :: "bool option"

record user_query =
  uq_isActive :: "bool option"
  uq_or :: "string option"
  uq_lastLogin_gte :: "int option"

definition field_ok :: "'v option \<Rightarrow> 'v \<Rightarrow> bool" where
  "field_ok want have = (case want of None \<Rightarrow> True | Some v \<Rightarrow> have = v)"

definition template_matches ::
  "(string \<Rightarrow> bool) \<Rightarrow> template_query \<Rightarrow> string template \<Rightarrow> bool" where
  "template_matches rx q t =
     (field_ok (tq_isActive q) (t_isActive t) \<and>
      (tq_or q = None \<or> rx (t_name t) \<or> rx (t_subject t)) \<and>
      field_ok (tq_category q) (t_category t) \<and>
      field_ok (tq_isPublic q) (t_isPublic t) \<and>
      field_ok (tq_isPremium q) (t_isPremium t))"

definition user_matches :: "(string \<Rightarrow> bool) \<Rightarrow> user_query \<Rightarrow> user_doc \<Rightarrow> bool" where
  "user_matches rx q u =
     (field_ok (uq_isActive q) (u_isActive u) \<and>
      (uq_or q = None \<or> rx (u_name u) \<or> rx (u_email u)) \<and>
      (case uq_lastLogin_gte q of
         None \<Rightarrow> True
       | Some since \<Rightarrow> (case u_lastLogin u of None \<Rightarrow> False | Some l \<Rightarrow> since \<le> l)))"

text \<open>
  The matcher of the filter's pattern: a filter without a pattern needs none, and a
  pattern the store cannot compile makes the query fail.
\<close>

definition compile_or :: "builtins \<Rightarrow> string option \<Rightarrow> db_error + (string \<Rightarrow> bool)" where
  "compile_or B pat =
     (case pat of
        None \<Rightarrow> Inr (\<lambda>_. True)
      | Some p \<Rightarrow>
          (case RegExp_i B p of None \<Rightarrow> Inl (DbError ''invalid regular expression'') | Some rx \<Rightarrow> Inr rx))"

definition Template_matching ::
  "builtins \<Rightarrow> db \<Rightarrow> template_query \<Rightarrow> db_error + string template list" where
  "Template_matching B d q =
     (if \<not> db_up d then Inl store_down
      else (case compile_or B (tq_or q) of
              Inl e \<Rightarrow> Inl e
            | Inr rx \<Rightarrow> Inr (filter (template_matches rx q) (templates d))))"

definition User_matching :: "builtins \<Rightarrow> db \<Rightarrow> user_query \<Rightarrow> db_error + user_doc list" where
  "User_matching B d q =
     (if \<not> db_up d then Inl store_down
      else (case compile_or B (uq_or q) of
              Inl e \<Rightarrow> Inl e
            | Inr rx \<Rightarrow> Inr (filter (user_matches rx q) (users d))))"

text \<open>
  The store's cursor, which is not part of the repository: \<open>skip\<close> documents are passed
  over, then at most \<open>limit\<close> are returned. A limit of zero is no limit, a negative limit
  counts as its absolute value, and a skip or limit that is not an integer, or a negative
  skip, is rejected.
\<close>

definition cursor :: "js_num \<Rightarrow> js_num \<Rightarrow> 'a list \<Rightarrow> db_error + 'a list" where
  "cursor lmt sk xs =
     (case (lmt, sk) of
        (Fin n, Fin k) \<Rightarrow>
          if is_integer n \<and> is_integer k \<and> 0 \<le> k
          then Inr (let ys = drop (nat \<lfloor>k\<rfloor>) xs
                    in if n = 0 then ys else take (nat \<lfloor>\<bar>n\<bar>\<rfloor>) ys)
          else Inl (DbError ''bad skip or limit'')
      | _ \<Rightarrow> Inl (DbError ''bad skip or limit''))"

text \<open>\<open>sort({ createdAt: -1 })\<close>: most recent first.\<close>

definition newest_first :: "('a \<Rightarrow> int) \<Rightarrow> 'a list \<Rightarrow> 'a list" where
  "newest_first createdAt xs = rev (sort_key createdAt xs)"

text \<open>\<open>populate('createdBy', 'name email')\<close>: the owner's document, cut down to its
  identifier, name and email, or \<open>null\<close> when the account is not in the store.\<close>

record creator =
  cr_id :: string
  cr_name :: string
  cr_email :: string

definition populate :: "db \<Rightarrow> string template \<Rightarrow> creator option template" where
  "populate d t =
     \<lparr>t_id = t_id t, t_name = t_name t, t_subject = t_subject t, t_category = t_category t,
      t_isPublic = t_isPublic t, t_isPremium = t_isPremium t, t_isActive = t_isActive t,
      t_createdBy =
        map_option (\<lambda>u. \<lparr>cr_id = u_id u, cr_name = u_name u, cr_email = u_email u\<rparr>)
          (find (\<lambda>u. u_id u = t_createdBy t) (users d)),
      t_createdAt = t_createdAt t\<rparr>"

text \<open>
  \<open>Template.find(q).populate(..).sort({createdAt: -1}).limit(lmt).skip(sk).lean()\<close>,
  \<open>User.find(q).sort({createdAt: -1}).limit(lmt).skip(sk).lean()\<close> and
  \<open>countDocuments(q)\<close>.
\<close>

definition Template_find ::
  "builtins \<Rightarrow> db \<Rightarrow> template_query \<Rightarrow> js_num \<Rightarrow> js_num
     \<Rightarrow> db_error + creator option template list" where
  "Template_find B d q lmt sk =
     (case Template_matching B d q of
        Inl e \<Rightarrow> Inl e
      | Inr ts \<Rightarrow>
          (case cursor lmt sk (newest_first t_createdAt ts) of
             Inl e \<Rightarrow> Inl e
           | Inr page \<Rightarrow> Inr (map (populate d) page)))"

definition User_find ::
  "builtins \<Rightarrow> db \<Rightarrow> user_query \<Rightarrow> js_num \<Rightarrow> js_num \<Rightarrow> db_error + user_doc list" where
  "User_find B d q lmt sk =
     (case User_matching B d q of
        Inl e \<Rightarrow> Inl e
      | Inr us \<Rightarrow> cursor lmt sk (newest_first u_createdAt us))"

definition Template_countDocuments ::
  "builtins \<Rightarrow> db \<Rightarrow> template_query \<Rightarrow> db_error + nat" where
  "Template_countDocuments B d q =
     (case Template_matching B d q of Inl e \<Rightarrow> Inl e | Inr ts \<Rightarrow> Inr (length ts))"

definition User_countDocuments :: "builtins \<Rightarrow> db \<Rightarrow> user_query \<Rightarrow> db_error + nat" where
  "User_countDocuments B d q =
     (case User_matching B d q of Inl e \<Rightarrow> Inl e | Inr us \<Rightarrow> Inr (length us))"


section \<open>Admin routes\<close>

text \<open>
  The query string of a listing request, as \<open>req.query\<close> holds it: every parameter is
  a string or absent.
\<close>

record query_params =
  qp_page :: "string option"
  qp_limit :: "string option"
  qp_search :: "string option"
  qp_category :: "string option"
  qp_isPublic :: "string option"

text \<open>
  \<open>page\<close> and \<open>limit\<close> after destructuring with their defaults: the number of the
  default, or the string of the request.
\<close>

datatype js_val = Num js_num | Str string

definition with_default :: "js_num \<Rightarrow> string option \<Rightarrow> js_val" where
  "with_default dflt p = (case p of None \<Rightarrow> Num dflt | Some s \<Rightarrow> Str s)"

definition num_of :: "builtins \<Rightarrow> js_val \<Rightarrow> js_num" where
  "num_of B v = (case v of Num n \<Rightarrow> n | Str s \<Rightarrow> StringToNumber B s)"

definition js_parseInt :: "builtins \<Rightarrow> js_val \<Rightarrow> js_num" where
  "js_parseInt B v = (case v of Num n \<Rightarrow> parseInt B (NumberToString B n) | Str s \<Rightarrow> parseInt B s)"

record pagination =
  current :: js_num
  pages :: js_num
  total :: nat

record 'd listing =
  items :: "'d list"
  page_info :: pagination

text \<open>
  A reply of a route: \<open>res.json(payload)\<close> or \<open>res.status(n).json(payload)\<close>, or the
  reply of its \<open>catch\<close>, \<open>res.status(n).json({ message, error: error.message })\<close>.
\<close>

datatype 'a reply = Sent nat 'a | Failed nat string db_error

definition limit_arg :: "builtins \<Rightarrow> query_params \<Rightarrow> js_num" where
  "limit_arg B qp = js_mul B (num_of B (with_default (Fin 20) (qp_limit qp))) (Fin 1)"

definition skip_arg :: "builtins \<Rightarrow> query_params \<Rightarrow> js_num" where
  "skip_arg B qp =
     js_mul B (js_sub B (num_of B (with_default (Fin 1) (qp_page qp))) (Fin 1))
              (num_of B (with_default (Fin 20) (qp_limit qp)))"

definition page_metadata :: "builtins \<Rightarrow> query_params \<Rightarrow> nat \<Rightarrow> pagination" where
  "page_metadata B qp n =
     \<lparr>current = js_parseInt B (with_default (Fin 1) (qp_page qp)),
      pages = Math_ceil_div B (Fin (of_nat n)) (num_of B (with_default (Fin 20) (qp_limit qp))),
      total = n\<rparr>"

definition truthy_str :: "string option \<Rightarrow> bool" where
  "truthy_str s = (case s of None \<Rightarrow> False | Some x \<Rightarrow> x \<noteq> [])"

text \<open>The filter of \<open>GET /admin/templates\<close>.\<close>

definition admin_templates_query :: "query_params \<Rightarrow> template_query" where
  "admin_templates_query qp =
     (let query0 = \<lparr>tq_isActive = Some True, tq_or = None, tq_category = None,
                     tq_isPublic = None, tq_isPremium = None\<rparr>;
          query1 = (if truthy_str (qp_search qp) then query0\<lparr>tq_or := qp_search qp\<rparr> else query0);
          query2 = (if truthy_str (qp_category qp) \<and> qp_category qp \<noteq> Some ''all''
                    then query1\<lparr>tq_category := qp_category qp\<rparr> else query1)
      in (case qp_isPublic qp of
            None \<Rightarrow> query2
          | Some p \<Rightarrow> query2\<lparr>tq_isPublic := Some (p = ''true'')\<rparr>))"

text \<open>The filter of \<open>GET /admin/users\<close>.\<close>

definition admin_users_query :: "query_params \<Rightarrow> user_query" where
  "admin_users_query qp =
     (let query0 = \<lparr>uq_isActive = Some True, uq_or = None, uq_lastLogin_gte = None\<rparr>
      in if truthy_str (qp_search qp) then query0\<lparr>uq_or := qp_search qp\<rparr> else query0)"

definition get_admin_templates ::
  "builtins \<Rightarrow> db \<Rightarrow> query_params \<Rightarrow> creator option template listing reply" where
  "get_admin_templates B d qp =
     (let query = admin_templates_query qp in
      case Template_find B d query (limit_arg B qp) (skip_arg B qp) of
        Inl e \<Rightarrow> Failed 500 ''Error fetching templates'' e
      | Inr ts \<Rightarrow>
          (case Template_countDocuments B d query of
             Inl e \<Rightarrow> Failed 500 ''Error fetching templates'' e
           | Inr n \<Rightarrow> Sent 200 \<lparr>items = ts, page_info = page_metadata B qp n\<rparr>))"

definition get_admin_users :: "builtins \<Rightarrow> db \<Rightarrow> query_params \<Rightarrow> user_doc listing reply" where
  "get_admin_users B d qp =
     (let query = admin_users_query qp in
      case User_find B d query (limit_arg B qp) (skip_arg B qp) of
        Inl e \<Rightarrow> Failed 500 ''Error fetching users'' e
      | Inr us \<Rightarrow>
          (case User_countDocuments B d query of
             Inl e \<Rightarrow> Failed 500 ''Error fetching users'' e
           | Inr n \<Rightarrow> Sent 200 \<lparr>items = us, page_info = page_metadata B qp n\<rparr>))"

record stats =
  totalUsers :: nat
  totalTemplates :: nat
  publicTemplates :: nat
  premiumTemplates :: nat
  activeUsers :: nat
  recentTemplates :: "creator option template list"

definition active_templates :: template_query where
  "active_templates =
     \<lparr>tq_isActive = Some True, tq_or = None, tq_category = None, tq_isPublic = None,
      tq_isPremium = None\<rparr>"

definition active_users :: user_query where
  "active_users = \<lparr>uq_isActive = Some True, uq_or = None, uq_lastLogin_gte = None\<rparr>"

definition and_then :: "db_error + 'a \<Rightarrow> ('a \<Rightarrow> db_error + 'b) \<Rightarrow> db_error + 'b" where
  "and_then r f = (case r of Inl e \<Rightarrow> Inl e | Inr x \<Rightarrow> f x)"

text \<open>
  \<open>GET /admin/dashboard\<close> at the time \<open>now\<close> (milliseconds): five counts and the ten
  most recent templates; one query that fails makes the whole reply fail.
\<close>

definition dashboard_stats :: "builtins \<Rightarrow> db \<Rightarrow> int \<Rightarrow> db_error + stats" where
  "dashboard_stats B d now =
     and_then (User_countDocuments B d active_users) (\<lambda>n1.
     and_then (Template_countDocuments B d active_templates) (\<lambda>n2.
     and_then (Template_countDocuments B d (active_templates\<lparr>tq_isPublic := Some True\<rparr>)) (\<lambda>n3.
     and_then (Template_countDocuments B d (active_templates\<lparr>tq_isPremium := Some True\<rparr>)) (\<lambda>n4.
     and_then (User_countDocuments B d
                 (active_users\<lparr>uq_lastLogin_gte := Some (now - 30 * 24 * 60 * 60 * 1000)\<rparr>)) (\<lambda>n5.
     and_then (Template_find B d active_templates (Fin 10) (Fin 0)) (\<lambda>recent.
       Inr \<lparr>totalUsers = n1, totalTemplates = n2, publicTemplates = n3,
            premiumTemplates = n4, activeUsers = n5, recentTemplates = recent\<rparr>))))))"

definition get_admin_dashboard :: "builtins \<Rightarrow> db \<Rightarrow> int \<Rightarrow> stats reply" where
  "get_admin_dashboard B d now =
     (case dashboard_stats B d now of
        Inl e \<Rightarrow> Failed 500 ''Error fetching dashboard data'' e
      | Inr st \<Rightarrow> Sent 200 st)"

text \<open>Setting a property of an object: in place when the key exists, at the end otherwise.\<close>

fun obj_set :: "string \<Rightarrow> json \<Rightarrow> (string \<times> json) list \<Rightarrow> (string \<times> json) list" where
  "obj_set k v [] = [(k, v)]"
| "obj_set k v ((k', v') # kvs) =
     (if k' = k then (k, v) # kvs else (k', v') # obj_set k v kvs)"

text \<open>
  The object literal of \<open>POST /admin/templates\<close>: the body spread first, then
  \<open>createdBy\<close>, \<open>isPublic\<close> and \<open>isPremium\<close> written over it.
\<close>

definition templateData :: "principal \<Rightarrow> (string \<times> json) list \<Rightarrow> (string \<times> json) list" where
  "templateData user body =
     obj_set ''isPremium''
       (case map_of body ''isPremium'' of
          None \<Rightarrow> JBool False
        | Some v \<Rightarrow> if truthy (Some v) then v else JBool False)
       (obj_set ''isPublic'' (JBool True)
          (obj_set ''createdBy'' (JStr (p_userId user)) body))"

text \<open>
  Modelled from the spec: the \<open>Template\<close> model is not among the sources. Its schema
  (the required fields, the casts of the caller's values, the defaults, the fresh
  identifier) is the parameter \<open>schema\<close>, which turns the data into a document or refuses
  it; of the model itself only this is taken: a boolean given as \<open>isPublic\<close> and a string
  given as \<open>createdBy\<close> are stored as they are given.
\<close>

definition new_Template ::
  "((string \<times> json) list \<Rightarrow> db_error + string template) \<Rightarrow> (string \<times> json) list
     \<Rightarrow> db_error + string template" where
  "new_Template schema data =
     (case schema data of
        Inl e \<Rightarrow> Inl e
      | Inr t \<Rightarrow>
          Inr (t\<lparr>t_isPublic := (case map_of data ''isPublic'' of
                                   Some (JBool b) \<Rightarrow> b
                                 | _ \<Rightarrow> t_isPublic t),
                  t_createdBy := (case map_of data ''createdBy'' of
                                    Some (JStr u) \<Rightarrow> u
                                  | _ \<Rightarrow> t_createdBy t)\<rparr>))"

definition Template_save :: "db \<Rightarrow> string template \<Rightarrow> db_error + db" where
  "Template_save d t =
     (if db_up d then Inr (d\<lparr>templates := templates d @ [t]\<rparr>) else Inl store_down)"

definition Template_findById :: "db \<Rightarrow> string \<Rightarrow> db_error + string template option" where
  "Template_findById d tid =
     (if db_up d then Inr (find (\<lambda>t. t_id t = tid) (templates d)) else Inl store_down)"

text \<open>
  \<open>POST /admin/templates\<close> for the principal that the guards attached: the reply and the
  store afterwards.
\<close>

definition post_admin_templates ::
  "((string \<times> json) list \<Rightarrow> db_error + string template) \<Rightarrow> db \<Rightarrow> principal
     \<Rightarrow> (string \<times> json) list \<Rightarrow> (string \<times> creator option template option) reply \<times> db" where
  "post_admin_templates schema d user body =
     (case new_Template schema (templateData user body) of
        Inl e \<Rightarrow> (Failed 500 ''Error creating template'' e, d)
      | Inr t \<Rightarrow>
          (case Template_save d t of
             Inl e \<Rightarrow> (Failed 500 ''Error creating template'' e, d)
           | Inr d' \<Rightarrow>
               (case Template_findById d' (t_id t) of
                  Inl e \<Rightarrow> (Failed 500 ''Error creating template'' e, d')
                | Inr found \<Rightarrow>
                    (Sent 201 (''Public template created successfully'',
                               map_option (populate d') found), d'))))"


section \<open>What a caller observes\<close>

text \<open>The status, the \<open>code\<close> and the \<open>message\<close> of the reply the guard sent.\<close>

definition reply_status :: "auth_run \<Rightarrow> nat option" where
  "reply_status run = map_option rp_status (sent run)"

definition reply_field :: "string \<Rightarrow> auth_run \<Rightarrow> json option" where
  "reply_field k run =
     (case sent run of
        None \<Rightarrow> None
      | Some r \<Rightarrow> (case get_prop (rp_json r) k of Inl e \<Rightarrow> None | Inr v \<Rightarrow> v))"

text \<open>
  \<open>res.status(n).json(body)\<close> as the client's \<open>fetch\<close> receives it: Express labels the
  body as JSON, and the body parses back to the value that was sent.
\<close>

definition express_json :: "http_reply \<Rightarrow> response" where
  "express_json r =
     \<lparr>status = rp_status r, content_type = Some ''application/json; charset=utf-8'',
      json_result = Some (rp_json r)\<rparr>"

text \<open>
  A backend whose routes sit behind the guard, seen from the client: the guard reads the
  \<open>Authorization\<close> header of the call; when it rejects, its reply is the response, and
  when it passes, the route answers.
\<close>

definition behind_guard ::
  "jwt_verify \<Rightarrow> string option \<Rightarrow> db \<Rightarrow> (string \<Rightarrow> config \<Rightarrow> fetch_result)
     \<Rightarrow> string \<Rightarrow> config \<Rightarrow> fetch_result" where
  "behind_guard verify JWT_SECRET d route url cfg =
     (case sent (auth verify JWT_SECRET d (cfg_headers cfg ''Authorization'')) of
        Some rp \<Rightarrow> Resolved (express_json rp)
      | None \<Rightarrow> route url cfg)"

section \<open>An instance for concrete requests\<close>

text \<open>
  An instance of the built-in functions, enough to run the model on the concrete requests
  below. The numeric coercion reads a string of decimal digits as the number it writes
  (the empty string as 0), and digits, \<open>e\<close>, digits as the first number times ten to
  the second; \<open>parseInt\<close> reads the decimal digits a string starts with, and is NaN when
  there are none. \<open>atob\<close> and \<open>JSON.parse\<close> know one payload, and a pattern matches the
  texts that contain it. The instance is used on such strings only, and on arithmetic that
  is exact.
\<close>

definition digit_value :: "char \<Rightarrow> nat option" where
  "digit_value c =
     map_of [(CHR ''0'', 0), (CHR ''1'', 1), (CHR ''2'', 2), (CHR ''3'', 3), (CHR ''4'', 4),
             (CHR ''5'', 5), (CHR ''6'', 6), (CHR ''7'', 7), (CHR ''8'', 8), (CHR ''9'', 9)] c"

fun decimal_from :: "nat \<Rightarrow> string \<Rightarrow> nat option" where
  "decimal_from acc [] = Some acc"
| "decimal_from acc (c # cs) =
     (case digit_value c of None \<Rightarrow> None | Some v \<Rightarrow> decimal_from (10 * acc + v) cs)"

definition scientific :: "string \<Rightarrow> js_num" where
  "scientific s =
     (let m = takeWhile (\<lambda>c. c \<noteq> CHR ''e'') s;
          r = dropWhile (\<lambda>c. c \<noteq> CHR ''e'') s
      in case r of
           [] \<Rightarrow> NaN
         | _ # x \<Rightarrow>
             if m = [] \<or> x = [] then NaN
             else (case decimal_from 0 m of
                     None \<Rightarrow> NaN
                   | Some a \<Rightarrow>
                       (case decimal_from 0 x of
                          None \<Rightarrow> NaN
                        | Some k \<Rightarrow> Fin (of_nat (a * 10 ^ k)))))"

definition decimal :: "string \<Rightarrow> js_num" where
  "decimal s = (case decimal_from 0 s of None \<Rightarrow> scientific s | Some n \<Rightarrow> Fin (of_nat n))"

definition leading_digits :: "string \<Rightarrow> string" where
  "leading_digits s = takeWhile (\<lambda>c. digit_value c \<noteq> None) s"

definition leading_decimal :: "string \<Rightarrow> js_num" where
  "leading_decimal s =
     (if leading_digits s = [] then NaN
      else (case decimal_from 0 (leading_digits s) of None \<Rightarrow> NaN | Some n \<Rightarrow> Fin (of_nat n)))"

definition decimal_text :: "js_num \<Rightarrow> string" where
  "decimal_text x =
     (case x of
        Fin r \<Rightarrow> if is_integer r \<and> 0 \<le> r then show_nat (nat \<lfloor>r\<rfloor>) else ''NaN''
      | _ \<Rightarrow> ''NaN'')"

definition ex_builtins :: builtins where
  \<open>ex_builtins =
     \<lparr>StringToNumber = decimal,
      parseInt = leading_decimal,
      NumberToString = decimal_text,
      ObjectToString = (\<lambda>v. ''[object Object]''),
      atob = (\<lambda>s. if s = ''eyJleHAiOjIwMDB9'' then Some ''{"exp":2000}'' else None),
      JSON_parse = (\<lambda>s. if s = ''{"exp":2000}''
                         then Some (JObj [(''exp'', JNum (Fin 2000))]) else None),
      RegExp_i = (\<lambda>p. Some (\<lambda>txt. str_includes txt p)),
      float_mul = (\<lambda>a b. NaN),
      float_sub = (\<lambda>a b. NaN),
      float_ceil_div = (\<lambda>a b. NaN)\<rparr>\<close>

text \<open>A store with an active administrator, a deactivated account and three templates,
  one of them soft-deleted.\<close>

definition ex_admin :: user_doc where
  "ex_admin =
     \<lparr>u_id = ''u1'', u_name = ''Ada'', u_email = ''ada@example.org'',
      u_password = Some ''hash1'', u_role = ''admin'', u_isActive = True,
      u_lastLogin = Some 1000, u_createdAt = 10\<rparr>"

definition ex_former :: user_doc where
  "ex_former =
     \<lparr>u_id = ''u2'', u_name = ''Bob'', u_email = ''bob@example.org'',
      u_password = Some ''hash2'', u_role = ''user'', u_isActive = False,
      u_lastLogin = None, u_createdAt = 20\<rparr>"

definition ex_template :: "string \<Rightarrow> bool \<Rightarrow> int \<Rightarrow> string template" where
  "ex_template i live made =
     \<lparr>t_id = i, t_name = ''Welcome'', t_subject = ''Hello'', t_category = ''news'',
      t_isPublic = False, t_isPremium = False, t_isActive = live, t_createdBy = ''u1'',
      t_createdAt = made\<rparr>"

definition ex_db :: db where
  "ex_db =
     \<lparr>db_up = True, users = [ex_admin, ex_former],
      templates = [ex_template ''t1'' True 1, ex_template ''t2'' False 2,
                   ex_template ''t3'' True 3]\<rparr>"

text \<open>A verifier that knows three tokens: the administrator's, the deactivated
  account's, and one that is past its expiry.\<close>

definition ex_verify :: jwt_verify where
  "ex_verify tok secret =
     (if tok = ''aaa.bbb.ccc'' then Decoded \<lparr>userId = ''u1'', role = ''admin''\<rparr>
      else if tok = ''ddd.eee.fff'' then Decoded \<lparr>userId = ''u2'', role = ''user''\<rparr>
      else if tok = ''ggg.hhh.iii'' then Throws ''TokenExpiredError''
      else Throws ''JsonWebTokenError'')"

definition no_options :: options where
  "no_options = \<lparr>opt_method = None, opt_body = None, opt_headers = None\<rparr>"

definition no_params :: query_params where
  "no_params =
     \<lparr>qp_page = None, qp_limit = None, qp_search = None, qp_category = None,
      qp_isPublic = None\<rparr>"

text \<open>A gateway that holds the token \<open>tok\<close>, and a backend with no route behind the
  guard.\<close>

definition ex_client :: "string \<Rightarrow> client" where
  "ex_client tok = \<lparr>token = Some tok, localStorage = [''authToken'' \<mapsto> tok]\<rparr>"

definition no_route :: "string \<Rightarrow> config \<Rightarrow> fetch_result" where
  "no_route url cfg = Rejected ''no route''"

text \<open>A store of \<open>n\<close> active templates.\<close>

definition store_of :: "nat \<Rightarrow> db" where
  "store_of n = \<lparr>db_up = True, users = [], templates = replicate n (ex_template ''t'' True 0)\<rparr>"


section \<open>Arithmetic that is exact\<close>

lemma is_integer_simps [simp]:
  "is_integer (of_int i)" "is_integer (of_nat n)" "is_integer (numeral k)"
  "is_integer 0" "is_integer 1"
  by (simp_all add: is_integer_def)

lemma safe_integer_of_int: "safe_integer (of_int i) = (\<bar>i\<bar> \<le> MAX_SAFE_INTEGER)"
proof -
  have "(\<bar>rat_of_int i\<bar> \<le> of_int MAX_SAFE_INTEGER) = (\<bar>i\<bar> \<le> MAX_SAFE_INTEGER)"
    by (simp only: of_int_abs [symmetric] of_int_le_iff)
  then show ?thesis by (simp add: safe_integer_def)
qed

lemmas exact_arith =
  js_mul_Fin js_sub_Fin exact_product_def exact_difference_def safe_integer_def
  MAX_SAFE_INTEGER_def

lemma js_mul_one [simp]: "js_mul B (Fin x) (Fin 1) = Fin x"
  by (simp add: js_mul_Fin exact_product_def)

lemma js_mul_zero [simp]: "js_mul B (Fin 0) (Fin x) = Fin 0"
  by (simp add: js_mul_Fin exact_product_def)

lemma js_sub_one_one [simp]: "js_sub B (Fin 1) (Fin 1) = Fin 0"
  by (simp add: exact_arith)

lemma js_mul_int:
  assumes "\<bar>a * b\<bar> \<le> MAX_SAFE_INTEGER"
  shows "js_mul B (Fin (of_int a)) (Fin (of_int b)) = Fin (of_int (a * b))"
proof -
  have "safe_integer (of_int a * of_int b)"
    using assms safe_integer_of_int [of "a * b"] by simp
  then show ?thesis by (simp add: js_mul_Fin exact_product_def)
qed

lemma js_sub_int:
  assumes "\<bar>a\<bar> \<le> MAX_SAFE_INTEGER" and "\<bar>b\<bar> \<le> MAX_SAFE_INTEGER"
    and "\<bar>a - b\<bar> \<le> MAX_SAFE_INTEGER"
  shows "js_sub B (Fin (of_int a)) (Fin (of_int b)) = Fin (of_int (a - b))"
proof -
  have "safe_integer (of_int a - of_int b)"
    using assms(3) safe_integer_of_int [of "a - b"] by simp
  then show ?thesis
    using assms(1,2) by (simp add: js_sub_Fin exact_difference_def safe_integer_of_int)
qed

lemma Math_ceil_div_int:
  assumes "b \<noteq> 0" and "\<bar>a\<bar> \<le> MAX_SAFE_INTEGER" and "\<bar>b\<bar> \<le> MAX_SAFE_INTEGER"
  shows "Math_ceil_div B (Fin (of_int a)) (Fin (of_int b))
           = Fin (of_int \<lceil>rat_of_int a / rat_of_int b\<rceil>)"
  using assms by (simp add: safe_integer_of_int)

section \<open>Properties of the Session Guard\<close>

lemma reject_fields:
  "sent (reject st body reads) = Some \<lparr>rp_status = st, rp_json = JObj body\<rparr>"
  "req_user (reject st body reads) = None"
  "next_called (reject st body reads) = False"
  "store_reads (reject st body reads) = reads"
  "reply_status (reject st body reads) = Some st"
  "reply_field k (reject st body reads) = map_of body k"
  by (simp_all add: reject_def reply_status_def reply_field_def)

text \<open>
  C1. A request whose \<open>Authorization\<close> header is absent, empty, or the bare prefix
  \<open>Bearer \<close> carries no token: the guard replies 401 with the message
  \<open>Access denied. No token provided.\<close> and no code, attaches no principal, does not
  call \<open>next()\<close>, and has looked nothing up in the account store, whatever the verifier
  is and whatever state the store is in.
\<close>

theorem guard_rejects_missing_token_before_store:
  assumes "authHeader = None \<or> authHeader = Some [] \<or> authHeader = Some ''Bearer ''"
  shows "reply_status (auth verify JWT_SECRET d authHeader) = Some 401
       \<and> reply_field ''message'' (auth verify JWT_SECRET d authHeader)
           = Some (JStr ''Access denied. No token provided.'')
       \<and> reply_field ''code'' (auth verify JWT_SECRET d authHeader) = None
       \<and> store_reads (auth verify JWT_SECRET d authHeader) = []
       \<and> req_user (auth verify JWT_SECRET d authHeader) = None
       \<and> \<not> next_called (auth verify JWT_SECRET d authHeader)"
proof -
  have "auth verify JWT_SECRET d authHeader = reject 401 no_token_body []"
    using assms by (auto simp: auth_def extract_token_def startsWith_def)
  then show ?thesis
    by (simp add: reject_fields no_token_body_def)
qed

theorem guard_rejects_missing_token_before_store_witness:
  "reply_status (auth ex_verify None (ex_db\<lparr>db_up := False\<rparr>) None) = Some 401
   \<and> store_reads (auth ex_verify None (ex_db\<lparr>db_up := False\<rparr>) None) = []
   \<and> \<not> next_called (auth ex_verify None (ex_db\<lparr>db_up := False\<rparr>) None)"
  using guard_rejects_missing_token_before_store
          [of None ex_verify None "ex_db\<lparr>db_up := False\<rparr>"]
  by simp

text \<open>
  C4. When the token verifies and names an account that the store holds with its active
  flag cleared, the guard replies 401 with the code \<open>ACCOUNT_DEACTIVATED\<close>; no principal
  is attached to the request and \<open>next()\<close> is not called.
\<close>

theorem guard_rejects_deactivated_account:
  assumes "extract_token authHeader = Some t" and "t \<noteq> []"
    and "verify t (jwt_secret JWT_SECRET) = Decoded p"
    and "User_findById d (userId p) = Inr (Some u)"
    and "\<not> u_isActive u"
  shows "reply_status (auth verify JWT_SECRET d authHeader) = Some 401
       \<and> reply_field ''code'' (auth verify JWT_SECRET d authHeader)
           = Some (JStr ''ACCOUNT_DEACTIVATED'')
       \<and> req_user (auth verify JWT_SECRET d authHeader) = None
       \<and> \<not> next_called (auth verify JWT_SECRET d authHeader)"
proof -
  have "auth verify JWT_SECRET d authHeader
          = reject 401 account_deactivated_body [userId p]"
    using assms by (simp add: auth_def select_no_password_def)
  then show ?thesis
    by (simp add: reject_fields account_deactivated_body_def)
qed

theorem guard_rejects_deactivated_account_witness:
  "extract_token (Some ''Bearer ddd.eee.fff'') = Some ''ddd.eee.fff''
   \<and> ex_verify ''ddd.eee.fff'' (jwt_secret None) = Decoded \<lparr>userId = ''u2'', role = ''user''\<rparr>
   \<and> User_findById ex_db ''u2'' = Inr (Some ex_former)
   \<and> \<not> u_isActive ex_former
   \<and> reply_field ''code'' (auth ex_verify None ex_db (Some ''Bearer ddd.eee.fff''))
       = Some (JStr ''ACCOUNT_DEACTIVATED'')
   \<and> req_user (auth ex_verify None ex_db (Some ''Bearer ddd.eee.fff'')) = None"
proof -
  have a: "extract_token (Some ''Bearer ddd.eee.fff'') = Some ''ddd.eee.fff''"
    by (simp add: extract_token_def startsWith_def)
  have t: "''ddd.eee.fff'' \<noteq> []" by simp
  have b: "ex_verify ''ddd.eee.fff'' (jwt_secret None)
             = Decoded \<lparr>userId = ''u2'', role = ''user''\<rparr>"
    by (simp add: ex_verify_def)
  have c: "User_findById ex_db (userId \<lparr>userId = ''u2'', role = ''user''\<rparr>)
             = Inr (Some ex_former)"
    by (simp add: User_findById_def ex_db_def ex_admin_def ex_former_def)
  have e: "\<not> u_isActive ex_former" by (simp add: ex_former_def)
  from guard_rejects_deactivated_account
         [where verify = ex_verify and JWT_SECRET = None, OF a t b c e] a b c e
  show ?thesis by simp
qed


text \<open>
  C2, as stated, fails in its client half: the gateway looks at the content type before
  it looks at the status and the body. A 401 whose body carries the code
  \<open>TOKEN_EXPIRED\<close> under the content type \<open>application/problem+json\<close> is turned
  into the error \<open>Server returned invalid response format\<close>, not into the re-login
  error.
\<close>

theorem problem_json_401_is_a_format_error:
  "get_prop (JObj token_expired_body) ''code'' = Inr (Some (JStr ''TOKEN_EXPIRED''))
   \<and> fst (request (\<lambda>url cfg. Resolved \<lparr>status = 401,
                                          content_type = Some ''application/problem+json'',
                                          json_result = Some (JObj token_expired_body)\<rparr>)
            ''/api'' (ex_client ''ggg.hhh.iii'') ''/auth/me'' no_options)
       = Inl (Error (JStr ''Server returned invalid response format''))"
  by (simp add: request_def is_json_type_def startsWith_def token_expired_body_def)

text \<open>
  C2, amended. A token whose verification throws \<open>TokenExpiredError\<close> is answered 401
  with the code \<open>TOKEN_EXPIRED\<close>, and every other error of the verification 401 with
  the code \<open>INVALID_TOKEN\<close>. The gateway, for a 401 response that passes its
  content-type check (a content type that contains \<open>application/json\<close>) and whose
  parsed body carries the code \<open>TOKEN_EXPIRED\<close>, throws
  \<open>Your session has expired. Please log in again.\<close>, and for a body with any other
  code, or none, \<open>Authentication failed. Please log in again.\<close>
\<close>

theorem expired_token_is_told_apart:
  assumes "extract_token authHeader = Some t" and "t \<noteq> []"
    and "fetch (API_BASE_URL @ endpoint) (request_config c opts) = Resolved r"
    and "status r = 401" and "is_json_type (content_type r)"
    and "json_result r = Some data"
  shows "(verify t (jwt_secret JWT_SECRET) = Throws ''TokenExpiredError'' \<longrightarrow>
            reply_status (auth verify JWT_SECRET d authHeader) = Some 401
          \<and> reply_field ''code'' (auth verify JWT_SECRET d authHeader)
              = Some (JStr ''TOKEN_EXPIRED''))
       \<and> (\<forall>n. verify t (jwt_secret JWT_SECRET) = Throws n \<and> n \<noteq> ''TokenExpiredError'' \<longrightarrow>
            reply_status (auth verify JWT_SECRET d authHeader) = Some 401
          \<and> reply_field ''code'' (auth verify JWT_SECRET d authHeader)
              = Some (JStr ''INVALID_TOKEN''))
       \<and> (get_prop data ''code'' = Inr (Some (JStr ''TOKEN_EXPIRED'')) \<longrightarrow>
            fst (request fetch API_BASE_URL c endpoint opts)
              = Inl (Error (JStr ''Your session has expired. Please log in again.'')))
       \<and> (\<forall>v. get_prop data ''code'' = Inr v \<and> v \<noteq> Some (JStr ''TOKEN_EXPIRED'') \<longrightarrow>
            fst (request fetch API_BASE_URL c endpoint opts)
              = Inl (Error (JStr ''Authentication failed. Please log in again.'')))"
proof -
  have expired: "auth verify JWT_SECRET d authHeader = reject 401 token_expired_body []"
    if "verify t (jwt_secret JWT_SECRET) = Throws ''TokenExpiredError''"
    using assms(1,2) that by (simp add: auth_def)
  have invalid: "auth verify JWT_SECRET d authHeader = reject 401 invalid_token_body []"
    if "verify t (jwt_secret JWT_SECRET) = Throws n" and "n \<noteq> ''TokenExpiredError''" for n
    using assms(1,2) that by (simp add: auth_def)
  have not_ok: "\<not> ok r" using assms(4) by (simp add: ok_def)
  have client:
    "fst (request fetch API_BASE_URL c endpoint opts)
       = (case get_prop data ''code'' of
            Inl e \<Rightarrow> Inl e
          | Inr code \<Rightarrow>
              if code = Some (JStr ''TOKEN_EXPIRED'')
              then Inl (Error (JStr ''Your session has expired. Please log in again.''))
              else Inl (Error (JStr ''Authentication failed. Please log in again.'')))"
    using assms(3-6) not_ok by (simp add: request_def Let_def split: sum.splits)
  show ?thesis
    using expired invalid client
    by (simp add: reject_fields token_expired_body_def invalid_token_body_def)
qed


lemma ex_guarded_call:
  "behind_guard ex_verify None ex_db no_route (''/api'' @ ''/auth/me'')
     (request_config (ex_client ''ggg.hhh.iii'') no_options)
   = Resolved (express_json \<lparr>rp_status = 401, rp_json = JObj token_expired_body\<rparr>)"
  by (simp add: behind_guard_def request_config_def ex_client_def no_options_def
      merged_headers_def auth_def extract_token_def startsWith_def ex_verify_def reject_def)

theorem expired_token_is_told_apart_witness:
  "extract_token (Some ''Bearer ggg.hhh.iii'') = Some ''ggg.hhh.iii''
   \<and> ex_verify ''ggg.hhh.iii'' (jwt_secret None) = Throws ''TokenExpiredError''
   \<and> reply_field ''code'' (auth ex_verify None ex_db (Some ''Bearer ggg.hhh.iii''))
       = Some (JStr ''TOKEN_EXPIRED'')
   \<and> fst (request (behind_guard ex_verify None ex_db no_route) ''/api''
            (ex_client ''ggg.hhh.iii'') ''/auth/me'' no_options)
       = Inl (Error (JStr ''Your session has expired. Please log in again.''))"
proof -
  let ?r = "express_json \<lparr>rp_status = 401, rp_json = JObj token_expired_body\<rparr>"
  have a: "extract_token (Some ''Bearer ggg.hhh.iii'') = Some ''ggg.hhh.iii''"
    by (simp add: extract_token_def startsWith_def)
  have t: "''ggg.hhh.iii'' \<noteq> []" by simp
  have s: "status ?r = 401" by (simp add: express_json_def)
  have j: "is_json_type (content_type ?r)"
    by (simp add: express_json_def is_json_type_def startsWith_def)
  have b: "json_result ?r = Some (JObj token_expired_body)" by (simp add: express_json_def)
  have v: "ex_verify ''ggg.hhh.iii'' (jwt_secret None) = Throws ''TokenExpiredError''"
    by (simp add: ex_verify_def)
  have g: "get_prop (JObj token_expired_body) ''code'' = Inr (Some (JStr ''TOKEN_EXPIRED''))"
    by (simp add: token_expired_body_def)
  from expired_token_is_told_apart
         [where verify = ex_verify and JWT_SECRET = None and d = ex_db
            and fetch = "behind_guard ex_verify None ex_db no_route"
            and API_BASE_URL = "''/api''" and endpoint = "''/auth/me''"
            and c = "ex_client ''ggg.hhh.iii''" and opts = no_options,
          OF a t ex_guarded_call s j b] a v g
  show ?thesis by simp
qed


lemma extract_token_raw:
  "\<not> startsWith h ''Bearer '' \<Longrightarrow> extract_token (Some h) = Some h"
  by (simp add: extract_token_def)

lemma extract_token_bearer: "extract_token (Some (''Bearer '' @ h)) = Some h"
  by (simp add: extract_token_def startsWith_def)

text \<open>
  C3, as stated, fails: a header that does not start with \<open>Bearer \<close> is not rejected
  for that. The header \<open>aaa.bbb.ccc\<close>, a token that verifies and names an active
  account, passes the guard: no reply is sent, \<open>next()\<close> is called and the principal is
  attached.
\<close>

theorem raw_header_accepted_as_token:
  "\<not> startsWith ''aaa.bbb.ccc'' ''Bearer ''
   \<and> sent (auth ex_verify None ex_db (Some ''aaa.bbb.ccc'')) = None
   \<and> next_called (auth ex_verify None ex_db (Some ''aaa.bbb.ccc''))
   \<and> map_option p_userId (req_user (auth ex_verify None ex_db (Some ''aaa.bbb.ccc'')))
       = Some ''u1''"
  by (simp add: startsWith_def auth_def extract_token_def ex_verify_def User_findById_def
      ex_db_def ex_admin_def ex_former_def select_no_password_def)

text \<open>
  C3, amended. The token is the header without its prefix when the header starts with
  \<open>Bearer \<close>, and the whole header otherwise: a header without the prefix is handled
  exactly as the same text with the prefix would be. It gets the reply
  \<open>Access denied. No token provided.\<close> only when it is empty; when it verifies and
  names an active account, the request passes.
\<close>

theorem header_without_prefix_is_the_token:
  assumes "\<not> startsWith h ''Bearer ''"
  shows "extract_token (Some h) = Some h
       \<and> auth verify JWT_SECRET d (Some h) = auth verify JWT_SECRET d (Some (''Bearer '' @ h))
       \<and> ((reply_field ''message'' (auth verify JWT_SECRET d (Some h))
              = Some (JStr ''Access denied. No token provided.'')) = (h = []))
       \<and> (\<forall>p u. h \<noteq> [] \<and> verify h (jwt_secret JWT_SECRET) = Decoded p
              \<and> User_findById d (userId p) = Inr (Some u) \<and> u_isActive u \<longrightarrow>
            next_called (auth verify JWT_SECRET d (Some h))
          \<and> sent (auth verify JWT_SECRET d (Some h)) = None)"
proof -
  have raw: "extract_token (Some h) = Some h"
    using assms by (rule extract_token_raw)
  have same: "auth verify JWT_SECRET d (Some h) = auth verify JWT_SECRET d (Some (''Bearer '' @ h))"
    by (simp only: auth_def raw extract_token_bearer)
  have msg: "(reply_field ''message'' (auth verify JWT_SECRET d (Some h))
              = Some (JStr ''Access denied. No token provided.'')) = (h = [])"
    by (simp add: auth_def raw reject_fields reply_field_def no_token_body_def
        token_expired_body_def invalid_token_body_def auth_error_body_def
        user_not_found_body_def account_deactivated_body_def Let_def
        split: verify_result.splits sum.splits option.splits)
  have pass: "next_called (auth verify JWT_SECRET d (Some h))
          \<and> sent (auth verify JWT_SECRET d (Some h)) = None"
    if "h \<noteq> []" "verify h (jwt_secret JWT_SECRET) = Decoded p"
       "User_findById d (userId p) = Inr (Some u)" "u_isActive u" for p u
    using that by (simp add: auth_def raw select_no_password_def)
  show ?thesis using raw same msg pass by blast
qed

theorem header_without_prefix_is_the_token_witness:
  "\<not> startsWith ''aaa.bbb.ccc'' ''Bearer ''
   \<and> auth ex_verify None ex_db (Some ''aaa.bbb.ccc'')
       = auth ex_verify None ex_db (Some ''Bearer aaa.bbb.ccc'')
   \<and> next_called (auth ex_verify None ex_db (Some ''Bearer aaa.bbb.ccc''))"
proof -
  have a: "\<not> startsWith ''aaa.bbb.ccc'' ''Bearer ''" by (simp add: startsWith_def)
  have n: "next_called (auth ex_verify None ex_db (Some ''Bearer aaa.bbb.ccc''))"
    by (simp add: startsWith_def auth_def extract_token_def ex_verify_def User_findById_def
      ex_db_def ex_admin_def ex_former_def select_no_password_def)
  from header_without_prefix_is_the_token [OF a, of ex_verify None ex_db] a n
  show ?thesis by simp
qed

section \<open>Properties of the Client API Gateway\<close>

text \<open>
  C9, as stated, fails: a 401 response that is not labelled as JSON is turned into the
  error \<open>Server returned invalid response format\<close> before the status is looked at, and
  the token stays in the field and in \<open>localStorage\<close>.
\<close>

theorem unlabelled_401_keeps_token:
  "fst (request (\<lambda>url cfg. Resolved \<lparr>status = 401, content_type = Some ''text/html'',
                                        json_result = None\<rparr>)
          ''/api'' (ex_client ''aaa.bbb.ccc'') ''/auth/me'' no_options)
     = Inl (Error (JStr ''Server returned invalid response format''))
   \<and> token (snd (request (\<lambda>url cfg. Resolved \<lparr>status = 401, content_type = Some ''text/html'',
                                        json_result = None\<rparr>)
          ''/api'' (ex_client ''aaa.bbb.ccc'') ''/auth/me'' no_options)) = Some ''aaa.bbb.ccc''
   \<and> localStorage (snd (request (\<lambda>url cfg. Resolved \<lparr>status = 401, content_type = Some ''text/html'',
                                        json_result = None\<rparr>)
          ''/api'' (ex_client ''aaa.bbb.ccc'') ''/auth/me'' no_options)) ''authToken''
       = Some ''aaa.bbb.ccc''"
  by (simp add: request_def is_json_type_def startsWith_def ex_client_def)

text \<open>
  C9, amended. For every 401 response that is labelled as JSON and whose body parses,
  \<open>request\<close> throws, and the gateway's state afterwards is that of \<open>logout\<close>: the
  token field and the \<open>authToken\<close> entry of \<open>localStorage\<close> are cleared, so that
  the next call, unless its caller supplies headers, carries no \<open>Authorization\<close> header.
\<close>

theorem json_401_clears_token:
  assumes "fetch (API_BASE_URL @ endpoint) (request_config c opts) = Resolved r"
    and "status r = 401" and "is_json_type (content_type r)"
    and "json_result r = Some data"
  shows "snd (request fetch API_BASE_URL c endpoint opts) = logout c
       \<and> token (snd (request fetch API_BASE_URL c endpoint opts)) = None
       \<and> localStorage (snd (request fetch API_BASE_URL c endpoint opts)) ''authToken'' = None
       \<and> (\<exists>e. fst (request fetch API_BASE_URL c endpoint opts) = Inl e)
       \<and> (\<forall>next_opts. opt_headers next_opts = None \<longrightarrow>
            cfg_headers (request_config (snd (request fetch API_BASE_URL c endpoint opts)) next_opts)
              ''Authorization'' = None)"
proof -
  have not_ok: "\<not> ok r" using assms(2) by (simp add: ok_def)
  have st: "snd (request fetch API_BASE_URL c endpoint opts) = logout c"
    using assms not_ok by (simp add: request_def Let_def split: sum.splits)
  have err: "\<exists>e. fst (request fetch API_BASE_URL c endpoint opts) = Inl e"
    using assms not_ok by (simp add: request_def Let_def split: sum.splits)
  have hdr: "cfg_headers (request_config (logout c) next_opts) ''Authorization'' = None"
    if "opt_headers next_opts = None" for next_opts
    using that by (simp add: request_config_def merged_headers_def logout_def map_add_def)
  show ?thesis using st err hdr by (simp add: logout_def)
qed

theorem json_401_clears_token_witness:
  "token (ex_client ''ggg.hhh.iii'') = Some ''ggg.hhh.iii''
   \<and> token (snd (request (behind_guard ex_verify None ex_db no_route) ''/api''
                   (ex_client ''ggg.hhh.iii'') ''/auth/me'' no_options)) = None
   \<and> localStorage (snd (request (behind_guard ex_verify None ex_db no_route) ''/api''
                   (ex_client ''ggg.hhh.iii'') ''/auth/me'' no_options)) ''authToken'' = None
   \<and> cfg_headers (request_config
         (snd (request (behind_guard ex_verify None ex_db no_route) ''/api''
                   (ex_client ''ggg.hhh.iii'') ''/auth/me'' no_options)) no_options)
       ''Authorization'' = None"
proof -
  let ?r = "express_json \<lparr>rp_status = 401, rp_json = JObj token_expired_body\<rparr>"
  have s: "status ?r = 401" by (simp add: express_json_def)
  have j: "is_json_type (content_type ?r)"
    by (simp add: express_json_def is_json_type_def startsWith_def)
  have b: "json_result ?r = Some (JObj token_expired_body)" by (simp add: express_json_def)
  have n: "opt_headers no_options = None" by (simp add: no_options_def)
  have k: "token (ex_client ''ggg.hhh.iii'') = Some ''ggg.hhh.iii''"
    by (simp add: ex_client_def)
  from json_401_clears_token
         [where fetch = "behind_guard ex_verify None ex_db no_route"
            and API_BASE_URL = "''/api''" and endpoint = "''/auth/me''"
            and c = "ex_client ''ggg.hhh.iii''" and opts = no_options,
          OF ex_guarded_call s j b] n k
  show ?thesis by blast
qed

text \<open>
  C10. \<open>isAuthenticated\<close> returns a boolean for every token, every decoder and every
  clock, and throws nothing. It returns false when no token or an empty one is stored and
  when anything in the \<open>try\<close> block throws (\<open>atob\<close>, \<open>JSON.parse\<close>, or reading
  \<open>exp\<close> of \<open>null\<close>), and false when the payload has no \<open>exp\<close>. It returns true
  exactly when the payload decodes and the product \<open>exp * 1000\<close>, as the platform
  computes it on the number that \<open>exp\<close> coerces to, is greater than the current time;
  for an \<open>exp\<close> that is an integer whose product with 1000 is a safe integer, that is
  \<open>now < exp * 1000\<close>.
\<close>

theorem isAuthenticated_total:
  "(\<exists>b. isAuthenticated B now c = Inr b)
   \<and> (token c = None \<or> token c = Some [] \<longrightarrow> isAuthenticated B now c = Inr False)
   \<and> (\<forall>t e. token c = Some t \<and> isAuthenticated_try B now t = Inl e \<longrightarrow>
         isAuthenticated B now c = Inr False)
   \<and> (\<forall>t. token c = Some t \<and>
            (atob B (payload_segment t) = None
             \<or> (\<exists>txt. atob B (payload_segment t) = Some txt \<and> JSON_parse B txt = None)
             \<or> (\<exists>txt. atob B (payload_segment t) = Some txt \<and> JSON_parse B txt = Some JNull)) \<longrightarrow>
         isAuthenticated B now c = Inr False)
   \<and> (\<forall>t txt kvs. token c = Some t \<and> atob B (payload_segment t) = Some txt
            \<and> JSON_parse B txt = Some (JObj kvs) \<and> map_of kvs ''exp'' = None \<longrightarrow>
         isAuthenticated B now c = Inr False)
   \<and> (\<forall>t txt kvs x. token c = Some t \<and> t \<noteq> [] \<and> atob B (payload_segment t) = Some txt
            \<and> JSON_parse B txt = Some (JObj kvs)
            \<and> map_of kvs ''exp'' = Some (JNum (Fin (of_int x)))
            \<and> \<bar>x * 1000\<bar> \<le> MAX_SAFE_INTEGER \<longrightarrow>
         isAuthenticated B now c = Inr (now < x * 1000))
   \<and> ((isAuthenticated B now c = Inr True) =
        (\<exists>t txt payload ex. token c = Some t \<and> t \<noteq> [] \<and> atob B (payload_segment t) = Some txt
           \<and> JSON_parse B txt = Some payload \<and> get_prop payload ''exp'' = Inr ex
           \<and> js_gt (js_mul B (ToNumber B ex) (Fin 1000)) (Fin (of_int now))))"
proof -
  have exact: "exact_product (of_int x) 1000"
    if "\<bar>x * 1000\<bar> \<le> MAX_SAFE_INTEGER" for x
  proof -
    have "safe_integer (of_int (x * 1000))"
      using that by (simp only: safe_integer_of_int)
    then show ?thesis by (simp add: exact_product_def)
  qed
  have cmp: "(rat_of_int now < rat_of_int x * 1000) = (now < x * 1000)" for x
  proof -
    have "rat_of_int x * 1000 = rat_of_int (x * 1000)" by simp
    then show ?thesis by (simp only: of_int_less_iff)
  qed
  show ?thesis
    by (auto simp: isAuthenticated_def isAuthenticated_try_def js_mul_Fin exact cmp
        split: option.splits sum.splits)
qed

theorem isAuthenticated_total_witness:
  "isAuthenticated ex_builtins 1999999 (ex_client ''h.eyJleHAiOjIwMDB9.s'') = Inr True
   \<and> isAuthenticated ex_builtins 2000000 (ex_client ''h.eyJleHAiOjIwMDB9.s'') = Inr False
   \<and> isAuthenticated ex_builtins 0 (ex_client ''not-a-token'') = Inr False
   \<and> isAuthenticated ex_builtins 0 \<lparr>token = None, localStorage = Map.empty\<rparr> = Inr False"
proof -
  let ?t = "''h.eyJleHAiOjIwMDB9.s''"
  have k: "token (ex_client ?t) = Some ?t" "?t \<noteq> []"
    by (simp_all add: ex_client_def)
  have a: \<open>atob ex_builtins (payload_segment ?t) = Some ''{"exp":2000}''\<close>
    by (simp add: ex_builtins_def payload_segment_def)
  have p: \<open>JSON_parse ex_builtins ''{"exp":2000}'' = Some (JObj [(''exp'', JNum (Fin 2000))])\<close>
    by (simp add: ex_builtins_def)
  have m: "map_of [(''exp'', JNum (Fin 2000))] ''exp'' = Some (JNum (Fin (of_int 2000)))"
    by simp
  have s: "\<bar>2000 * 1000\<bar> \<le> MAX_SAFE_INTEGER"
    by (simp add: MAX_SAFE_INTEGER_def)
  have live: "isAuthenticated ex_builtins 1999999 (ex_client ?t) = Inr (1999999 < (2000::int) * 1000)"
    using isAuthenticated_total [of ex_builtins 1999999 "ex_client ?t"] k a p m s by blast
  have dead: "isAuthenticated ex_builtins 2000000 (ex_client ?t) = Inr (2000000 < (2000::int) * 1000)"
    using isAuthenticated_total [of ex_builtins 2000000 "ex_client ?t"] k a p m s by blast
  have k2: "token (ex_client ''not-a-token'') = Some ''not-a-token''"
    by (simp add: ex_client_def)
  have a2: "atob ex_builtins (payload_segment ''not-a-token'') = None"
    by (simp add: ex_builtins_def payload_segment_def)
  have junk: "isAuthenticated ex_builtins 0 (ex_client ''not-a-token'') = Inr False"
    using isAuthenticated_total [of ex_builtins 0 "ex_client ''not-a-token''"] k2 a2 by blast
  have none: "isAuthenticated ex_builtins 0 \<lparr>token = None, localStorage = Map.empty\<rparr> = Inr False"
    using isAuthenticated_total [of ex_builtins 0 "\<lparr>token = None, localStorage = Map.empty\<rparr>"]
    by simp
  show ?thesis using live dead junk none by simp
qed

section \<open>Properties of the admin routes\<close>

lemma cursor_subset: "cursor lmt sk xs = Inr ys \<Longrightarrow> set ys \<subseteq> set xs"
  by (auto simp: cursor_def Let_def split: js_num.splits if_splits
      dest: in_set_dropD in_set_takeD)

lemma set_newest_first: "set (newest_first f xs) = set xs"
  by (simp add: newest_first_def)

lemma length_newest_first: "length (newest_first f xs) = length xs"
  by (simp add: newest_first_def)

lemma populate_isActive: "t_isActive (populate d t) = t_isActive t"
  by (simp add: populate_def)

lemma Template_matching_active:
  assumes "Template_matching B d q = Inr ts" and "tq_isActive q = Some True"
  shows "\<forall>t \<in> set ts. t_isActive t"
  using assms
  by (auto simp: Template_matching_def template_matches_def field_ok_def
      split: if_splits sum.splits)

lemma Template_find_active:
  assumes "Template_find B d q lmt sk = Inr ps" and "tq_isActive q = Some True"
  shows "\<forall>p \<in> set ps. t_isActive p"
proof -
  from assms(1) obtain ts page where
    m: "Template_matching B d q = Inr ts" and
    c: "cursor lmt sk (newest_first t_createdAt ts) = Inr page" and
    ps: "ps = map (populate d) page"
    by (auto simp: Template_find_def split: sum.splits)
  have "set page \<subseteq> set ts"
    using cursor_subset [OF c] by (simp add: set_newest_first)
  then show ?thesis
    using Template_matching_active [OF m assms(2)] ps
    by (auto simp: populate_isActive)
qed

lemma admin_templates_query_active: "tq_isActive (admin_templates_query qp) = Some True"
  by (simp add: admin_templates_query_def Let_def split: option.splits)

lemma and_then_Inr:
  "(and_then r f = Inr y) = (\<exists>x. r = Inr x \<and> f x = Inr y)"
  by (cases r) (simp_all add: and_then_def)

lemma cursor_first_page:
  "0 < n \<Longrightarrow> cursor (Fin (of_nat n)) (Fin 0) xs = Inr (take n xs)"
  by (simp add: cursor_def)

lemma cursor_page:
  "0 < n \<Longrightarrow> cursor (Fin (of_nat n)) (Fin (of_nat k)) xs = Inr (take n (drop k xs))"
  by (simp add: cursor_def)

lemma page_metadata_pages:
  assumes "num_of B (with_default (Fin 20) (qp_limit qp)) = Fin (of_int l)" and "l \<noteq> 0"
    and "\<bar>l\<bar> \<le> MAX_SAFE_INTEGER" and "int n \<le> MAX_SAFE_INTEGER"
  shows "pages (page_metadata B qp n) = Fin (of_int \<lceil>rat_of_nat n / rat_of_int l\<rceil>)"
proof -
  have "Math_ceil_div B (Fin (of_int (int n))) (Fin (of_int l))
          = Fin (of_int \<lceil>rat_of_int (int n) / rat_of_int l\<rceil>)"
    using assms(2-4) by (intro Math_ceil_div_int) simp_all
  then show ?thesis
    using assms(1) by (simp add: page_metadata_def)
qed

lemma page_arguments:
  assumes "num_of B (with_default (Fin 20) (qp_limit qp)) = Fin (of_int l)" and "0 < l"
    and "num_of B (with_default (Fin 1) (qp_page qp)) = Fin (of_nat k)" and "0 < k"
    and "int k * l \<le> MAX_SAFE_INTEGER"
  shows "limit_arg B qp = Fin (of_nat (nat l))"
    and "skip_arg B qp = Fin (of_nat ((k - 1) * nat l))"
proof -
  show "limit_arg B qp = Fin (of_nat (nat l))"
    using assms(1,2) by (simp add: limit_arg_def)
  have kl: "int k \<le> int k * l"
    using assms(2) mult_left_mono [of 1 l "int k"] by simp
  have low: "0 \<le> (int k - 1) * l"
    using assms(2,4) by simp
  have "(int k - 1) * l = int k * l - l"
    by (simp add: left_diff_distrib)
  then have high: "(int k - 1) * l \<le> MAX_SAFE_INTEGER"
    using assms(2,5) by simp
  have kM: "\<bar>int k\<bar> \<le> MAX_SAFE_INTEGER"
    using kl assms(5) by simp
  have one: "\<bar>1::int\<bar> \<le> MAX_SAFE_INTEGER"
    by (simp add: MAX_SAFE_INTEGER_def)
  have d: "\<bar>int k - 1\<bar> \<le> MAX_SAFE_INTEGER"
    using kM assms(4) by simp
  have sub: "js_sub B (Fin (of_int (int k))) (Fin (of_int 1)) = Fin (of_int (int k - 1))"
    by (rule js_sub_int [OF kM one d])
  have mul: "js_mul B (Fin (of_int (int k - 1))) (Fin (of_int l))
               = Fin (of_int ((int k - 1) * l))"
    using low high by (intro js_mul_int) simp
  have "(int k - 1) * l = int ((k - 1) * nat l)"
    using assms(2,4) by (simp add: of_nat_diff)
  then have "rat_of_int ((int k - 1) * l) = rat_of_nat ((k - 1) * nat l)"
    by (simp only: of_int_of_nat_eq)
  then show "skip_arg B qp = Fin (of_nat ((k - 1) * nat l))"
    using sub mul assms(1,3) by (simp add: skip_arg_def)
qed

lemma get_admin_templates_Sent:
  assumes "get_admin_templates B d qp = Sent st L"
  shows "\<exists>n. Template_find B d (admin_templates_query qp) (limit_arg B qp) (skip_arg B qp)
               = Inr (items L)
           \<and> Template_countDocuments B d (admin_templates_query qp) = Inr n
           \<and> page_info L = page_metadata B qp n \<and> st = 200"
  using assms by (auto simp: get_admin_templates_def Let_def split: sum.splits)

lemma get_admin_users_Sent:
  assumes "get_admin_users B d qp = Sent st L"
  shows "\<exists>n. User_find B d (admin_users_query qp) (limit_arg B qp) (skip_arg B qp)
               = Inr (items L)
           \<and> User_countDocuments B d (admin_users_query qp) = Inr n
           \<and> page_info L = page_metadata B qp n \<and> st = 200"
  using assms by (auto simp: get_admin_users_def Let_def split: sum.splits)

lemma page_metadata_total: "total (page_metadata B qp n) = n"
  and page_metadata_current:
    "current (page_metadata B qp n) = js_parseInt B (with_default (Fin 1) (qp_page qp))"
  by (simp_all add: page_metadata_def)

lemma ceiling_unit_fraction: "\<lceil>(1::rat) / numeral k\<rceil> = 1"
  by (rule ceiling_unique) simp_all

lemma newest_first_replicate: "newest_first f (replicate n x) = replicate n x"
proof -
  have "sort_key f (replicate n x) = replicate n x"
    by (rule sort_key_id_if_sorted) (simp add: sorted_replicate)
  then show ?thesis by (simp add: newest_first_def)
qed

lemma digit_value_digit: "k < 10 \<Longrightarrow> digit_value (''0123456789'' ! k) = Some k"
proof -
  assume "k < 10"
  then have "k \<in> {0, 1, 2, 3, 4, 5, 6, 7, 8, 9}" by auto
  then show ?thesis by (auto simp: digit_value_def)
qed

lemma decimal_from_snoc:
  "decimal_from acc (xs @ [c]) =
     (case decimal_from acc xs of
        None \<Rightarrow> None
      | Some a \<Rightarrow> (case digit_value c of None \<Rightarrow> None | Some v \<Rightarrow> Some (10 * a + v)))"
proof (induction xs arbitrary: acc)
  case Nil
  show ?case by (simp split: option.splits)
next
  case (Cons x xs)
  show ?case
    by (cases "digit_value x") (simp_all add: Cons.IH)
qed

lemma show_nat_small: "n < 10 \<Longrightarrow> show_nat n = [''0123456789'' ! n]"
  by (subst show_nat.simps) simp

lemma show_nat_large:
  "\<not> n < 10 \<Longrightarrow> show_nat n = show_nat (n div 10) @ [''0123456789'' ! (n mod 10)]"
  by (subst show_nat.simps) simp

lemma show_nat_nonempty: "show_nat n \<noteq> []"
  by (cases "n < 10") (simp_all add: show_nat_small show_nat_large)

lemma decimal_from_show_nat: "decimal_from 0 (show_nat n) = Some n"
proof (induction n rule: show_nat.induct)
  case (1 n)
  show ?case
  proof (cases "n < 10")
    case True
    have "decimal_from 0 [''0123456789'' ! n] = Some n"
      by (simp only: decimal_from.simps digit_value_digit [OF True] option.case) simp
    then show ?thesis by (simp only: show_nat_small [OF True])
  next
    case False
    have ih: "decimal_from 0 (show_nat (n div 10)) = Some (n div 10)"
      using "1.IH" [OF False] .
    have d: "digit_value (''0123456789'' ! (n mod 10)) = Some (n mod 10)"
      by (rule digit_value_digit) simp
    have "decimal_from 0 (show_nat (n div 10) @ [''0123456789'' ! (n mod 10)])
            = Some (10 * (n div 10) + n mod 10)"
      by (simp only: decimal_from_snoc ih d option.case)
    then show ?thesis by (simp only: show_nat_large [OF False]) simp
  qed
qed

lemma decimal_show_nat: "decimal (show_nat n) = Fin (of_nat n)"
  by (simp add: decimal_def decimal_from_show_nat)

lemma decimal_from_digits:
  "decimal_from acc s = Some n \<Longrightarrow> \<forall>c \<in> set s. digit_value c \<noteq> None"
  by (induction s arbitrary: acc) (auto split: option.splits)

lemma leading_decimal_show_nat: "leading_decimal (show_nat n) = Fin (of_nat n)"
proof -
  have "leading_digits (show_nat n) = show_nat n"
    unfolding leading_digits_def
    using decimal_from_digits [OF decimal_from_show_nat [of n]]
    by (simp only: takeWhile_eq_all_conv)
  then show ?thesis
    by (simp add: leading_decimal_def decimal_from_show_nat show_nat_nonempty)
qed

lemma ex_listing:
  "get_admin_templates ex_builtins ex_db no_params
     = Sent 200 \<lparr>items = [populate ex_db (ex_template ''t3'' True 3),
                           populate ex_db (ex_template ''t1'' True 1)],
                  page_info = \<lparr>current = Fin 1, pages = Fin 1, total = 2\<rparr>\<rparr>"
  by (simp add: get_admin_templates_def admin_templates_query_def no_params_def truthy_str_def
      Template_find_def Template_countDocuments_def Template_matching_def compile_or_def
      template_matches_def field_ok_def limit_arg_def skip_arg_def with_default_def num_of_def
      cursor_def newest_first_def page_metadata_def js_parseInt_def ex_builtins_def
      decimal_text_def leading_decimal_show_nat ex_template_def ex_db_def
      ceiling_unit_fraction exact_arith)

lemma store_of_matching:
  "Template_matching B (store_of n) (admin_templates_query (no_params\<lparr>qp_limit := l\<rparr>))
     = Inr (replicate n (ex_template ''t'' True 0))"
  by (simp add: Template_matching_def store_of_def admin_templates_query_def no_params_def
      truthy_str_def compile_or_def template_matches_def field_ok_def ex_template_def)

lemma store_of_listing:
  assumes "num_of B (with_default (Fin 20) l) = Fin (of_nat k)" and "0 < k"
  shows "get_admin_templates B (store_of n) (no_params\<lparr>qp_limit := l\<rparr>)
     = Sent 200 \<lparr>items = replicate (min k n) (populate (store_of n) (ex_template ''t'' True 0)),
                  page_info = page_metadata B (no_params\<lparr>qp_limit := l\<rparr>) n\<rparr>"
proof -
  have l: "limit_arg B (no_params\<lparr>qp_limit := l\<rparr>) = Fin (of_nat k)"
    using assms(1) by (simp add: limit_arg_def exact_arith)
  have s: "skip_arg B (no_params\<lparr>qp_limit := l\<rparr>) = Fin 0"
    using assms(1)
    by (simp add: skip_arg_def with_default_def num_of_def no_params_def exact_arith)
  show ?thesis
    using assms(2)
    by (simp add: get_admin_templates_def Template_find_def Template_countDocuments_def
        store_of_matching l s cursor_first_page newest_first_replicate min.commute)
qed

lemma store_of_page:
  assumes "limit_arg B qp = Fin (of_nat n)" and "0 < n" and "skip_arg B qp = Fin (of_nat k)"
    and "qp_search qp = None" and "qp_category qp = None" and "qp_isPublic qp = None"
  shows "get_admin_templates B (store_of m) qp
     = Sent 200 \<lparr>items = replicate (min n (m - k))
                              (populate (store_of m) (ex_template ''t'' True 0)),
                  page_info = page_metadata B qp m\<rparr>"
proof -
  have "Template_matching B (store_of m) (admin_templates_query qp)
          = Inr (replicate m (ex_template ''t'' True 0))"
    using assms(4-6)
    by (simp add: Template_matching_def store_of_def admin_templates_query_def
        truthy_str_def compile_or_def template_matches_def field_ok_def ex_template_def)
  then show ?thesis
    using assms(2)
    by (simp add: get_admin_templates_def Template_find_def Template_countDocuments_def
        assms(1,3) cursor_page newest_first_replicate min.commute)
qed

text \<open>
  C5. Every template in a page of \<open>GET /admin/templates\<close>, for every store, every
  query string and whatever the built-in functions compute, has its active flag set; so
  has every template among the recent templates of \<open>GET /admin/dashboard\<close>. A
  soft-deleted template is in neither.
\<close>

theorem listings_hold_active_templates_only:
  "(\<forall>st L. get_admin_templates B d qp = Sent st L \<longrightarrow> (\<forall>t \<in> set (items L). t_isActive t))
   \<and> (\<forall>st S. get_admin_dashboard B d now = Sent st S \<longrightarrow>
         (\<forall>t \<in> set (recentTemplates S). t_isActive t))"
proof (intro conjI allI impI)
  fix st L
  assume "get_admin_templates B d qp = Sent st L"
  then have "Template_find B d (admin_templates_query qp) (limit_arg B qp) (skip_arg B qp)
               = Inr (items L)"
    by (auto simp: get_admin_templates_def Let_def split: sum.splits)
  then show "\<forall>t \<in> set (items L). t_isActive t"
    by (rule Template_find_active) (rule admin_templates_query_active)
next
  fix st S
  assume "get_admin_dashboard B d now = Sent st S"
  then have "dashboard_stats B d now = Inr S"
    by (simp add: get_admin_dashboard_def split: sum.splits)
  then have "Template_find B d active_templates (Fin 10) (Fin 0) = Inr (recentTemplates S)"
    by (auto simp: dashboard_stats_def and_then_Inr)
  then show "\<forall>t \<in> set (recentTemplates S). t_isActive t"
    by (rule Template_find_active) (simp add: active_templates_def)
qed

theorem listings_hold_active_templates_only_witness:
  "ex_template ''t2'' False 2 \<in> set (templates ex_db)
   \<and> \<not> t_isActive (ex_template ''t2'' False 2)
   \<and> (\<exists>L. get_admin_templates ex_builtins ex_db no_params = Sent 200 L
          \<and> map t_id (items L) = [''t3'', ''t1'']
          \<and> list_all t_isActive (items L))"
proof -
  let ?L = "\<lparr>items = [populate ex_db (ex_template ''t3'' True 3),
                       populate ex_db (ex_template ''t1'' True 1)],
              page_info = \<lparr>current = Fin 1, pages = Fin 1, total = 2\<rparr>\<rparr>"
  have "\<forall>t \<in> set (items ?L). t_isActive t"
    using listings_hold_active_templates_only [of ex_builtins ex_db no_params 0] ex_listing
    by blast
  then have a: "list_all t_isActive (items ?L)"
    by (simp only: list_all_iff)
  have i: "map t_id (items ?L) = [''t3'', ''t1'']"
    by (simp add: populate_def ex_template_def)
  have m: "ex_template ''t2'' False 2 \<in> set (templates ex_db)"
    by (simp add: ex_db_def)
  have n: "\<not> t_isActive (ex_template ''t2'' False 2)"
    by (simp add: ex_template_def)
  show ?thesis
    by (intro conjI exI [where x = ?L]) (rule m n ex_listing i a)+
qed

text \<open>
  C6, as stated, fails in two places. The page reported is \<open>parseInt(page)\<close>, while
  the page served is cut at \<open>(page - 1) * limit\<close>, which reads \<open>page\<close> as a number:
  for \<open>page=1e1\<close> the documents from the 181st on are served, the tenth page of
  twenty, and \<open>current\<close> is 1. And for \<open>limit=0\<close> the number of pages is
  \<open>Infinity\<close>, not a ceiling of a quotient.
\<close>

theorem reported_page_is_not_the_page_served:
  "StringToNumber ex_builtins ''1e1'' = Fin 10
   \<and> parseInt ex_builtins ''1e1'' = Fin 1
   \<and> skip_arg ex_builtins (no_params\<lparr>qp_page := Some ''1e1''\<rparr>) = Fin 180
   \<and> (\<exists>L. get_admin_templates ex_builtins (store_of 185) (no_params\<lparr>qp_page := Some ''1e1''\<rparr>)
              = Sent 200 L
          \<and> total (page_info L) = 185 \<and> length (items L) = 5
          \<and> current (page_info L) = Fin 1)
   \<and> (\<exists>L. get_admin_templates ex_builtins ex_db (no_params\<lparr>qp_limit := Some ''0''\<rparr>)
              = Sent 200 L
          \<and> total (page_info L) = 2 \<and> pages (page_info L) = PosInf)"
proof -
  let ?qp = "no_params\<lparr>qp_page := Some ''1e1''\<rparr>"
  let ?L = "\<lparr>items = replicate (min 20 (185 - 180))
                       (populate (store_of 185) (ex_template ''t'' True 0)),
              page_info = page_metadata ex_builtins ?qp 185\<rparr>"
  let ?Z = "\<lparr>items = [populate ex_db (ex_template ''t3'' True 3),
                       populate ex_db (ex_template ''t1'' True 1)],
              page_info = \<lparr>current = Fin 1, pages = PosInf, total = 2\<rparr>\<rparr>"
  have n: "StringToNumber ex_builtins ''1e1'' = Fin 10"
    by (simp add: ex_builtins_def decimal_def scientific_def digit_value_def)
  have p: "parseInt ex_builtins ''1e1'' = Fin 1"
    by (simp add: ex_builtins_def leading_decimal_def leading_digits_def digit_value_def)
  have l: "limit_arg ex_builtins ?qp = Fin (of_nat 20)"
    by (simp add: limit_arg_def with_default_def num_of_def no_params_def)
  have k: "skip_arg ex_builtins ?qp = Fin (of_nat 180)"
    using n by (simp add: skip_arg_def with_default_def num_of_def no_params_def exact_arith)
  have run: "get_admin_templates ex_builtins (store_of 185) ?qp = Sent 200 ?L"
    by (rule store_of_page [OF l _ k]) (simp_all add: no_params_def)
  have t: "total (page_info ?L) = 185" by (simp add: page_metadata_total)
  have i: "length (items ?L) = 5" by simp
  have c: "current (page_info ?L) = Fin 1"
    using p by (simp add: page_metadata_current with_default_def js_parseInt_def)
  have k': "skip_arg ex_builtins ?qp = Fin 180" using k by simp
  have zero: "get_admin_templates ex_builtins ex_db (no_params\<lparr>qp_limit := Some ''0''\<rparr>)
                = Sent 200 ?Z"
    by (simp add: get_admin_templates_def admin_templates_query_def no_params_def truthy_str_def
      Template_find_def Template_countDocuments_def Template_matching_def compile_or_def
      template_matches_def field_ok_def limit_arg_def skip_arg_def with_default_def num_of_def
      cursor_def newest_first_def page_metadata_def js_parseInt_def ex_builtins_def
      decimal_def digit_value_def decimal_text_def leading_decimal_show_nat ex_template_def
      ex_db_def exact_arith)
  have tz: "total (page_info ?Z) = 2" and pz: "pages (page_info ?Z) = PosInf"
    by simp_all
  show ?thesis
    by (intro conjI exI [where x = ?L] exI [where x = ?Z]) (rule n p k' run t i c zero tz pz)+
qed

lemma templates_slice:
  assumes "get_admin_templates B d qp = Sent st L"
    and "limit_arg B qp = Fin (of_nat n)" and "0 < n" and "skip_arg B qp = Fin (of_nat k)"
  shows "\<exists>ts. Template_matching B d (admin_templates_query qp) = Inr ts
           \<and> items L = map (populate d) (take n (drop k (newest_first t_createdAt ts)))"
  using get_admin_templates_Sent [OF assms(1)] assms(3)
  by (auto simp: assms(2,4) Template_find_def cursor_page split: sum.splits)

lemma users_slice:
  assumes "get_admin_users B d qp = Sent st L"
    and "limit_arg B qp = Fin (of_nat n)" and "0 < n" and "skip_arg B qp = Fin (of_nat k)"
  shows "\<exists>us. User_matching B d (admin_users_query qp) = Inr us
           \<and> items L = take n (drop k (newest_first u_createdAt us))"
  using get_admin_users_Sent [OF assms(1)] assms(3)
  by (auto simp: assms(2,4) User_find_def cursor_page split: sum.splits)

text \<open>
  C6, amended. Let \<open>limit\<close> (the request's, as a number, or the default 20) be an
  integer other than zero, safe in magnitude. Then the metadata of every page that
  \<open>GET /admin/templates\<close> or \<open>GET /admin/users\<close> returns has \<open>total\<close> the number of
  documents that match the filter and, for a safe total, \<open>pages\<close> the ceiling of
  \<open>total / limit\<close>; 45 documents with a limit of 20 are 3 pages. When moreover the
  limit is positive and \<open>page\<close> (the request's, or the default 1) is read as the same
  positive integer \<open>k\<close> by the numeric coercion and by \<open>parseInt\<close>, \<open>current\<close> is
  \<open>k\<close> and the items are the \<open>k\<close>-th run of \<open>limit\<close> matching documents, most
  recent first.
\<close>

theorem pagination_metadata:
  assumes "num_of B (with_default (Fin 20) (qp_limit qp)) = Fin (of_int l)"
    and "l \<noteq> 0" and "\<bar>l\<bar> \<le> MAX_SAFE_INTEGER"
  shows "(\<forall>st L. get_admin_templates B d qp = Sent st L \<longrightarrow>
            Template_countDocuments B d (admin_templates_query qp) = Inr (total (page_info L))
          \<and> (int (total (page_info L)) \<le> MAX_SAFE_INTEGER \<longrightarrow>
               pages (page_info L)
                 = Fin (of_int \<lceil>rat_of_nat (total (page_info L)) / rat_of_int l\<rceil>))
          \<and> (total (page_info L) = 45 \<and> l = 20 \<longrightarrow> pages (page_info L) = Fin 3)
          \<and> (\<forall>k. 0 < k \<and> 0 < l \<and> int k * l \<le> MAX_SAFE_INTEGER
                 \<and> num_of B (with_default (Fin 1) (qp_page qp)) = Fin (of_nat k)
                 \<and> js_parseInt B (with_default (Fin 1) (qp_page qp)) = Fin (of_nat k) \<longrightarrow>
               current (page_info L) = Fin (of_nat k)
             \<and> (\<exists>ts. Template_matching B d (admin_templates_query qp) = Inr ts
                   \<and> items L = map (populate d)
                        (take (nat l) (drop ((k - 1) * nat l) (newest_first t_createdAt ts))))))
       \<and> (\<forall>st L. get_admin_users B d qp = Sent st L \<longrightarrow>
            User_countDocuments B d (admin_users_query qp) = Inr (total (page_info L))
          \<and> (int (total (page_info L)) \<le> MAX_SAFE_INTEGER \<longrightarrow>
               pages (page_info L)
                 = Fin (of_int \<lceil>rat_of_nat (total (page_info L)) / rat_of_int l\<rceil>))
          \<and> (total (page_info L) = 45 \<and> l = 20 \<longrightarrow> pages (page_info L) = Fin 3)
          \<and> (\<forall>k. 0 < k \<and> 0 < l \<and> int k * l \<le> MAX_SAFE_INTEGER
                 \<and> num_of B (with_default (Fin 1) (qp_page qp)) = Fin (of_nat k)
                 \<and> js_parseInt B (with_default (Fin 1) (qp_page qp)) = Fin (of_nat k) \<longrightarrow>
               current (page_info L) = Fin (of_nat k)
             \<and> (\<exists>us. User_matching B d (admin_users_query qp) = Inr us
                   \<and> items L = take (nat l) (drop ((k - 1) * nat l)
                                                (newest_first u_createdAt us)))))"
proof -
  have meta: "(int (total p) \<le> MAX_SAFE_INTEGER \<longrightarrow>
                 pages p = Fin (of_int \<lceil>rat_of_nat (total p) / rat_of_int l\<rceil>))
          \<and> (total p = 45 \<and> l = 20 \<longrightarrow> pages p = Fin 3)
          \<and> current p = js_parseInt B (with_default (Fin 1) (qp_page qp))"
    if "p = page_metadata B qp n" for p n
  proof -
    have t: "total p = n" using that by (simp add: page_metadata_total)
    have p: "pages p = Fin (of_int \<lceil>rat_of_nat (total p) / rat_of_int l\<rceil>)"
      if "int (total p) \<le> MAX_SAFE_INTEGER"
      using page_metadata_pages [OF assms, of n] that t \<open>p = page_metadata B qp n\<close> by simp
    have c: "\<lceil>(45::rat) / 20\<rceil> = 3" by (rule ceiling_unique) simp_all
    have "pages p = Fin 3" if "total p = 45 \<and> l = 20"
    proof -
      have "int (total p) \<le> MAX_SAFE_INTEGER"
        using that by (simp add: MAX_SAFE_INTEGER_def)
      from p [OF this] that c show ?thesis by simp
    qed
    then show ?thesis
      using p \<open>p = page_metadata B qp n\<close> by (simp add: page_metadata_current)
  qed
  show ?thesis
  proof (intro conjI allI impI)
    fix st L assume run: "get_admin_templates B d qp = Sent st L"
    then obtain n where
      n: "Template_countDocuments B d (admin_templates_query qp) = Inr n"
         "page_info L = page_metadata B qp n"
      using get_admin_templates_Sent by blast
    show "Template_countDocuments B d (admin_templates_query qp) = Inr (total (page_info L))"
      using n by (simp add: page_metadata_total)
    show "pages (page_info L)
            = Fin (of_int \<lceil>rat_of_nat (total (page_info L)) / rat_of_int l\<rceil>)"
      if "int (total (page_info L)) \<le> MAX_SAFE_INTEGER"
      using meta [OF n(2)] that by blast
    show "pages (page_info L) = Fin 3" if "total (page_info L) = 45 \<and> l = 20"
      using meta [OF n(2)] that by blast
    fix k
    assume k: "0 < k \<and> 0 < l \<and> int k * l \<le> MAX_SAFE_INTEGER
                 \<and> num_of B (with_default (Fin 1) (qp_page qp)) = Fin (of_nat k)
                 \<and> js_parseInt B (with_default (Fin 1) (qp_page qp)) = Fin (of_nat k)"
    show "current (page_info L) = Fin (of_nat k)"
      using meta [OF n(2)] k by simp
    have args: "limit_arg B qp = Fin (of_nat (nat l))"
               "skip_arg B qp = Fin (of_nat ((k - 1) * nat l))"
      using page_arguments [OF assms(1), of k] k by simp_all
    show "\<exists>ts. Template_matching B d (admin_templates_query qp) = Inr ts
                   \<and> items L = map (populate d)
                        (take (nat l) (drop ((k - 1) * nat l) (newest_first t_createdAt ts)))"
      using templates_slice [OF run args(1) _ args(2)] k by simp
  next
    fix st L assume run: "get_admin_users B d qp = Sent st L"
    then obtain n where
      n: "User_countDocuments B d (admin_users_query qp) = Inr n"
         "page_info L = page_metadata B qp n"
      using get_admin_users_Sent by blast
    show "User_countDocuments B d (admin_users_query qp) = Inr (total (page_info L))"
      using n by (simp add: page_metadata_total)
    show "pages (page_info L)
            = Fin (of_int \<lceil>rat_of_nat (total (page_info L)) / rat_of_int l\<rceil>)"
      if "int (total (page_info L)) \<le> MAX_SAFE_INTEGER"
      using meta [OF n(2)] that by blast
    show "pages (page_info L) = Fin 3" if "total (page_info L) = 45 \<and> l = 20"
      using meta [OF n(2)] that by blast
    fix k
    assume k: "0 < k \<and> 0 < l \<and> int k * l \<le> MAX_SAFE_INTEGER
                 \<and> num_of B (with_default (Fin 1) (qp_page qp)) = Fin (of_nat k)
                 \<and> js_parseInt B (with_default (Fin 1) (qp_page qp)) = Fin (of_nat k)"
    show "current (page_info L) = Fin (of_nat k)"
      using meta [OF n(2)] k by simp
    have args: "limit_arg B qp = Fin (of_nat (nat l))"
               "skip_arg B qp = Fin (of_nat ((k - 1) * nat l))"
      using page_arguments [OF assms(1), of k] k by simp_all
    show "\<exists>us. User_matching B d (admin_users_query qp) = Inr us
                   \<and> items L = take (nat l) (drop ((k - 1) * nat l)
                                                (newest_first u_createdAt us))"
      using users_slice [OF run args(1) _ args(2)] k by simp
  qed
qed

lemma ex_second_page:
  "get_admin_templates ex_builtins ex_db (no_params\<lparr>qp_page := Some ''2'', qp_limit := Some ''1''\<rparr>)
     = Sent 200 \<lparr>items = [populate ex_db (ex_template ''t1'' True 1)],
                  page_info = \<lparr>current = Fin 2, pages = Fin 2, total = 2\<rparr>\<rparr>"
  by (simp add: get_admin_templates_def admin_templates_query_def no_params_def truthy_str_def
      Template_find_def Template_countDocuments_def Template_matching_def compile_or_def
      template_matches_def field_ok_def limit_arg_def skip_arg_def with_default_def num_of_def
      cursor_def newest_first_def page_metadata_def js_parseInt_def ex_builtins_def
      decimal_def leading_decimal_def leading_digits_def digit_value_def ex_template_def
      ex_db_def exact_arith)

lemma ex_users_page:
  "get_admin_users ex_builtins ex_db (no_params\<lparr>qp_page := Some ''1'', qp_limit := Some ''1''\<rparr>)
     = Sent 200 \<lparr>items = [ex_admin],
                  page_info = \<lparr>current = Fin 1, pages = Fin 1, total = 1\<rparr>\<rparr>"
  by (simp add: get_admin_users_def admin_users_query_def no_params_def truthy_str_def
      User_find_def User_countDocuments_def User_matching_def compile_or_def
      user_matches_def field_ok_def limit_arg_def skip_arg_def with_default_def num_of_def
      cursor_def newest_first_def page_metadata_def js_parseInt_def ex_builtins_def
      decimal_def leading_decimal_def leading_digits_def digit_value_def ex_admin_def
      ex_former_def ex_db_def exact_arith)

theorem pagination_metadata_witness:
  "(\<exists>L. get_admin_templates ex_builtins ex_db
            (no_params\<lparr>qp_page := Some ''2'', qp_limit := Some ''1''\<rparr>) = Sent 200 L
        \<and> total (page_info L) = 2 \<and> pages (page_info L) = Fin 2
        \<and> current (page_info L) = Fin 2 \<and> map t_id (items L) = [''t1''])
   \<and> (\<exists>L. get_admin_users ex_builtins ex_db
            (no_params\<lparr>qp_page := Some ''1'', qp_limit := Some ''1''\<rparr>) = Sent 200 L
        \<and> total (page_info L) = 1 \<and> pages (page_info L) = Fin 1
        \<and> current (page_info L) = Fin 1 \<and> map u_id (items L) = [''u1''])
   \<and> (\<exists>L. get_admin_templates ex_builtins (store_of 45) no_params = Sent 200 L
        \<and> total (page_info L) = 45 \<and> pages (page_info L) = Fin 3
        \<and> current (page_info L) = Fin 1)"
proof -
  let ?qt = "no_params\<lparr>qp_page := Some ''2'', qp_limit := Some ''1''\<rparr>"
  let ?qu = "no_params\<lparr>qp_page := Some ''1'', qp_limit := Some ''1''\<rparr>"
  let ?T = "\<lparr>items = [populate ex_db (ex_template ''t1'' True 1)],
              page_info = \<lparr>current = Fin 2, pages = Fin 2, total = 2\<rparr>\<rparr>"
  let ?U = "\<lparr>items = [ex_admin], page_info = \<lparr>current = Fin 1, pages = Fin 1, total = 1\<rparr>\<rparr>"
  let ?S = "\<lparr>items = replicate (min 20 45) (populate (store_of 45) (ex_template ''t'' True 0)),
              page_info = page_metadata ex_builtins no_params 45\<rparr>"
  have one: "\<bar>1::int\<bar> \<le> MAX_SAFE_INTEGER" "(1::int) \<noteq> 0"
    and twenty: "\<bar>20::int\<bar> \<le> MAX_SAFE_INTEGER" "(20::int) \<noteq> 0"
    by (simp_all add: MAX_SAFE_INTEGER_def)
  \<comment> \<open>templates, second page of one\<close>
  have lt: "num_of ex_builtins (with_default (Fin 20) (qp_limit ?qt)) = Fin (of_int 1)"
    by (simp add: no_params_def with_default_def num_of_def ex_builtins_def decimal_def
        digit_value_def)
  have kt: "0 < (2::nat) \<and> 0 < (1::int) \<and> int 2 * 1 \<le> MAX_SAFE_INTEGER
          \<and> num_of ex_builtins (with_default (Fin 1) (qp_page ?qt)) = Fin (of_nat 2)
          \<and> js_parseInt ex_builtins (with_default (Fin 1) (qp_page ?qt)) = Fin (of_nat 2)"
    by (simp add: no_params_def with_default_def num_of_def js_parseInt_def ex_builtins_def
        decimal_def leading_decimal_def leading_digits_def digit_value_def
        MAX_SAFE_INTEGER_def)
  have st: "int (total (page_info ?T)) \<le> MAX_SAFE_INTEGER"
    by (simp add: MAX_SAFE_INTEGER_def)
  from pagination_metadata [OF lt one(2) one(1), of ex_db]
  have "\<forall>st L. get_admin_templates ex_builtins ex_db ?qt = Sent st L \<longrightarrow>
          (int (total (page_info L)) \<le> MAX_SAFE_INTEGER \<longrightarrow>
             pages (page_info L)
               = Fin (of_int \<lceil>rat_of_nat (total (page_info L)) / rat_of_int 1\<rceil>))
        \<and> (\<forall>k. 0 < k \<and> 0 < (1::int) \<and> int k * 1 \<le> MAX_SAFE_INTEGER
               \<and> num_of ex_builtins (with_default (Fin 1) (qp_page ?qt)) = Fin (of_nat k)
               \<and> js_parseInt ex_builtins (with_default (Fin 1) (qp_page ?qt)) = Fin (of_nat k) \<longrightarrow>
             current (page_info L) = Fin (of_nat k))"
    by blast
  from this [rule_format, OF ex_second_page] st kt
  have "pages (page_info ?T) = Fin (of_int \<lceil>rat_of_nat (total (page_info ?T)) / rat_of_int 1\<rceil>)"
    and "current (page_info ?T) = Fin (of_nat 2)"
    by blast+
  then have pt: "pages (page_info ?T) = Fin 2" and ct: "current (page_info ?T) = Fin 2"
    by simp_all
  have tt: "total (page_info ?T) = 2" by simp
  have it: "map t_id (items ?T) = [''t1'']" by (simp add: populate_def ex_template_def)
  \<comment> \<open>users, first page of one\<close>
  have lu: "num_of ex_builtins (with_default (Fin 20) (qp_limit ?qu)) = Fin (of_int 1)"
    by (simp add: no_params_def with_default_def num_of_def ex_builtins_def decimal_def
        digit_value_def)
  have ku: "0 < (1::nat) \<and> 0 < (1::int) \<and> int 1 * 1 \<le> MAX_SAFE_INTEGER
          \<and> num_of ex_builtins (with_default (Fin 1) (qp_page ?qu)) = Fin (of_nat 1)
          \<and> js_parseInt ex_builtins (with_default (Fin 1) (qp_page ?qu)) = Fin (of_nat 1)"
    by (simp add: no_params_def with_default_def num_of_def js_parseInt_def ex_builtins_def
        decimal_def leading_decimal_def leading_digits_def digit_value_def
        MAX_SAFE_INTEGER_def)
  have su: "int (total (page_info ?U)) \<le> MAX_SAFE_INTEGER"
    by (simp add: MAX_SAFE_INTEGER_def)
  from pagination_metadata [OF lu one(2) one(1), of ex_db]
  have "\<forall>st L. get_admin_users ex_builtins ex_db ?qu = Sent st L \<longrightarrow>
          (int (total (page_info L)) \<le> MAX_SAFE_INTEGER \<longrightarrow>
             pages (page_info L)
               = Fin (of_int \<lceil>rat_of_nat (total (page_info L)) / rat_of_int 1\<rceil>))
        \<and> (\<forall>k. 0 < k \<and> 0 < (1::int) \<and> int k * 1 \<le> MAX_SAFE_INTEGER
               \<and> num_of ex_builtins (with_default (Fin 1) (qp_page ?qu)) = Fin (of_nat k)
               \<and> js_parseInt ex_builtins (with_default (Fin 1) (qp_page ?qu)) = Fin (of_nat k) \<longrightarrow>
             current (page_info L) = Fin (of_nat k))"
    by blast
  from this [rule_format, OF ex_users_page] su ku
  have "pages (page_info ?U) = Fin (of_int \<lceil>rat_of_nat (total (page_info ?U)) / rat_of_int 1\<rceil>)"
    and "current (page_info ?U) = Fin (of_nat 1)"
    by blast+
  then have pu: "pages (page_info ?U) = Fin 1" and cu: "current (page_info ?U) = Fin 1"
    by simp_all
  have tu: "total (page_info ?U) = 1" by simp
  have iu: "map u_id (items ?U) = [''u1'']" by (simp add: ex_admin_def)
  \<comment> \<open>45 templates, 20 a page\<close>
  have ls: "num_of ex_builtins (with_default (Fin 20) (qp_limit no_params)) = Fin (of_int 20)"
    by (simp add: no_params_def with_default_def num_of_def)
  have "num_of ex_builtins (with_default (Fin 20) None) = Fin (of_nat 20)"
    by (simp add: with_default_def num_of_def)
  from store_of_listing [OF this, of 45]
  have runs: "get_admin_templates ex_builtins (store_of 45) no_params = Sent 200 ?S"
    by (simp add: no_params_def)
  have ts: "total (page_info ?S) = 45" by (simp add: page_metadata_total)
  have cs: "current (page_info ?S) = Fin 1"
    by (simp add: page_metadata_current no_params_def with_default_def js_parseInt_def
        ex_builtins_def decimal_text_def leading_decimal_show_nat)
  from pagination_metadata [OF ls twenty(2) twenty(1), of "store_of 45"]
  have "\<forall>st L. get_admin_templates ex_builtins (store_of 45) no_params = Sent st L \<longrightarrow>
          (total (page_info L) = 45 \<and> (20::int) = 20 \<longrightarrow> pages (page_info L) = Fin 3)"
    by blast
  from this [rule_format, OF runs] ts
  have ps: "pages (page_info ?S) = Fin 3" by blast
  show ?thesis
    by (intro conjI exI [where x = ?T] exI [where x = ?U] exI [where x = ?S])
       (rule ex_second_page tt pt ct it ex_users_page tu pu cu iu runs ts ps cs)+
qed

lemma Template_find_length:
  assumes "Template_find B d q (Fin (of_nat n)) (Fin 0) = Inr ps" and "0 < n"
    and "Template_countDocuments B d q = Inr m"
  shows "length ps = min n m"
  using assms
  by (auto simp: Template_find_def Template_countDocuments_def cursor_first_page
      length_newest_first split: sum.splits)

lemma User_find_length:
  assumes "User_find B d q (Fin (of_nat n)) (Fin 0) = Inr ps" and "0 < n"
    and "User_countDocuments B d q = Inr m"
  shows "length ps = min n m"
  using assms
  by (auto simp: User_find_def User_countDocuments_def cursor_first_page
      length_newest_first split: sum.splits)

lemma map_of_obj_set: "map_of (obj_set k v kvs) = (map_of kvs)(k \<mapsto> v)"
  by (induction kvs) auto

lemma templateData_isPublic: "map_of (templateData user body) ''isPublic'' = Some (JBool True)"
  by (simp add: templateData_def map_of_obj_set)

lemma templateData_createdBy:
  "map_of (templateData user body) ''createdBy'' = Some (JStr (p_userId user))"
  by (simp add: templateData_def map_of_obj_set)

text \<open>
  C7, as stated, fails: no maximum bounds the page size. Whatever bound \<open>M\<close> is
  proposed, the request with \<open>limit\<close> the decimal text of \<open>M + 1\<close>, on a store of
  \<open>M + 1\<close> active templates, is answered with a page of \<open>M + 1\<close> templates.
\<close>

theorem page_size_has_no_maximum:
  "\<not> (\<exists>M. \<forall>d qp st L. get_admin_templates ex_builtins d qp = Sent st L
                          \<longrightarrow> length (items L) \<le> M)"
proof
  assume "\<exists>M. \<forall>d qp st L. get_admin_templates ex_builtins d qp = Sent st L
                          \<longrightarrow> length (items L) \<le> M"
  then obtain M where
    M: "\<And>d qp st L. get_admin_templates ex_builtins d qp = Sent st L \<Longrightarrow> length (items L) \<le> M"
    by blast
  have "num_of ex_builtins (with_default (Fin 20) (Some (show_nat (Suc M)))) = Fin (of_nat (Suc M))"
    by (simp only: with_default_def num_of_def option.case js_val.case ex_builtins_def
        builtins.simps decimal_show_nat)
  from store_of_listing [OF this, of "Suc M"]
  have "get_admin_templates ex_builtins (store_of (Suc M))
          (no_params\<lparr>qp_limit := Some (show_nat (Suc M))\<rparr>)
        = Sent 200 \<lparr>items = replicate (min (Suc M) (Suc M))
                               (populate (store_of (Suc M)) (ex_template ''t'' True 0)),
                     page_info = page_metadata ex_builtins
                                   (no_params\<lparr>qp_limit := Some (show_nat (Suc M))\<rparr>) (Suc M)\<rparr>"
    by simp
  from M [OF this] show False by simp
qed

text \<open>
  C7, amended. The routes apply no cap to \<open>limit\<close>: the page size handed to the
  store is the numeric value of the request's \<open>limit\<close>, and 20 when the request has
  none. For a limit that is a positive integer \<open>n\<close>, the first page of
  \<open>GET /admin/templates\<close> and of \<open>GET /admin/users\<close> holds \<open>n\<close> documents, or all
  matching ones when they are fewer.
\<close>

theorem limit_is_passed_uncapped:
  "(qp_limit qp = None \<longrightarrow> limit_arg B qp = Fin 20)
   \<and> (\<forall>s x. qp_limit qp = Some s \<and> StringToNumber B s = Fin x \<longrightarrow> limit_arg B qp = Fin x)
   \<and> (\<forall>s n st L. qp_limit qp = Some s \<and> StringToNumber B s = Fin (of_nat n) \<and> 0 < n
          \<and> qp_page qp = None \<and> get_admin_templates B d qp = Sent st L \<longrightarrow>
        length (items L) = min n (total (page_info L)))
   \<and> (\<forall>s n st L. qp_limit qp = Some s \<and> StringToNumber B s = Fin (of_nat n) \<and> 0 < n
          \<and> qp_page qp = None \<and> get_admin_users B d qp = Sent st L \<longrightarrow>
        length (items L) = min n (total (page_info L)))"
proof (intro conjI allI impI)
  assume "qp_limit qp = None"
  then show "limit_arg B qp = Fin 20"
    by (simp add: limit_arg_def with_default_def num_of_def)
next
  fix s x assume "qp_limit qp = Some s \<and> StringToNumber B s = Fin x"
  then show "limit_arg B qp = Fin x"
    by (simp add: limit_arg_def with_default_def num_of_def)
next
  fix s n st L
  assume a: "qp_limit qp = Some s \<and> StringToNumber B s = Fin (of_nat n) \<and> 0 < n
          \<and> qp_page qp = None \<and> get_admin_templates B d qp = Sent st L"
  then have l: "limit_arg B qp = Fin (of_nat n)" and s: "skip_arg B qp = Fin 0"
    by (simp_all add: limit_arg_def skip_arg_def with_default_def num_of_def)
  from a obtain m where
    m: "Template_find B d (admin_templates_query qp) (limit_arg B qp) (skip_arg B qp) = Inr (items L)"
       "Template_countDocuments B d (admin_templates_query qp) = Inr m"
       "page_info L = page_metadata B qp m"
    using get_admin_templates_Sent by blast
  from Template_find_length [OF m(1) [unfolded l s] _ m(2)] a m(3)
  show "length (items L) = min n (total (page_info L))"
    by (simp add: page_metadata_total)
next
  fix s n st L
  assume a: "qp_limit qp = Some s \<and> StringToNumber B s = Fin (of_nat n) \<and> 0 < n
          \<and> qp_page qp = None \<and> get_admin_users B d qp = Sent st L"
  then have l: "limit_arg B qp = Fin (of_nat n)" and s: "skip_arg B qp = Fin 0"
    by (simp_all add: limit_arg_def skip_arg_def with_default_def num_of_def)
  from a obtain m where
    m: "User_find B d (admin_users_query qp) (limit_arg B qp) (skip_arg B qp) = Inr (items L)"
       "User_countDocuments B d (admin_users_query qp) = Inr m"
       "page_info L = page_metadata B qp m"
    using get_admin_users_Sent by blast
  from User_find_length [OF m(1) [unfolded l s] _ m(2)] a m(3)
  show "length (items L) = min n (total (page_info L))"
    by (simp add: page_metadata_total)
qed

theorem limit_is_passed_uncapped_witness:
  "StringToNumber ex_builtins ''25'' = Fin 25
   \<and> limit_arg ex_builtins (no_params\<lparr>qp_limit := Some ''25''\<rparr>) = Fin 25
   \<and> (\<exists>L. get_admin_templates ex_builtins (store_of 30) (no_params\<lparr>qp_limit := Some ''25''\<rparr>)
              = Sent 200 L
          \<and> total (page_info L) = 30 \<and> length (items L) = 25)"
proof -
  let ?qp = "no_params\<lparr>qp_limit := Some ''25''\<rparr>"
  let ?L = "\<lparr>items = replicate (min 25 30) (populate (store_of 30) (ex_template ''t'' True 0)),
              page_info = page_metadata ex_builtins ?qp 30\<rparr>"
  have n: "StringToNumber ex_builtins ''25'' = Fin (of_nat 25)"
    by (simp add: ex_builtins_def decimal_def digit_value_def)
  have q: "qp_limit ?qp = Some ''25''" "qp_page ?qp = None"
    by (simp_all add: no_params_def)
  have "num_of ex_builtins (with_default (Fin 20) (Some ''25'')) = Fin (of_nat 25)"
    using n by (simp add: with_default_def num_of_def)
  from store_of_listing [OF this, of 30]
  have run: "get_admin_templates ex_builtins (store_of 30) ?qp = Sent 200 ?L"
    by simp
  have t: "total (page_info ?L) = 30" by (simp add: page_metadata_total)
  have pos: "(0::nat) < 25" by simp
  note T = limit_is_passed_uncapped [of ?qp ex_builtins "store_of 30"]
  have "limit_arg ex_builtins ?qp = Fin (of_nat 25)"
    using T q n by blast
  then have l: "limit_arg ex_builtins ?qp = Fin 25" by simp
  have "length (items ?L) = min 25 (total (page_info ?L))"
    using T q n pos run by blast
  then have len: "length (items ?L) = 25"
    using t by simp
  have n': "StringToNumber ex_builtins ''25'' = Fin 25" using n by simp
  show ?thesis
    by (intro conjI exI [where x = ?L]) (rule n' l run t len)+
qed

text \<open>
  C8. The data that \<open>POST /admin/templates\<close> hands to the model has \<open>isPublic\<close> true
  and \<open>createdBy\<close> the caller's account identifier, whatever the body holds, a body
  with \<open>isPublic: false\<close> included. When the route replies 201, the store has one more
  template, which is public and owned by the caller; when it replies 500, the templates
  of the store are unchanged.
\<close>

theorem admin_created_template_is_public:
  "map_of (templateData user body) ''isPublic'' = Some (JBool True)
   \<and> map_of (templateData user body) ''createdBy'' = Some (JStr (p_userId user))
   \<and> (\<forall>st payload d'. post_admin_templates schema d user body = (Sent st payload, d') \<longrightarrow>
         st = 201
       \<and> (\<exists>t. templates d' = templates d @ [t] \<and> t_isPublic t
                \<and> t_createdBy t = p_userId user))
   \<and> (\<forall>st msg e d'. post_admin_templates schema d user body = (Failed st msg e, d') \<longrightarrow>
         st = 500 \<and> templates d' = templates d)"
proof (intro conjI allI impI)
  show "map_of (templateData user body) ''isPublic'' = Some (JBool True)"
    by (rule templateData_isPublic)
  show "map_of (templateData user body) ''createdBy'' = Some (JStr (p_userId user))"
    by (rule templateData_createdBy)
next
  fix st payload d'
  assume a: "post_admin_templates schema d user body = (Sent st payload, d')"
  then obtain t where
    t: "new_Template schema (templateData user body) = Inr t" and
    s: "Template_save d t = Inr d'" and st: "st = 201"
    by (auto simp: post_admin_templates_def split: sum.splits)
  from t have "t_isPublic t \<and> t_createdBy t = p_userId user"
    by (auto simp: new_Template_def templateData_isPublic templateData_createdBy
        split: sum.splits)
  moreover from s have "templates d' = templates d @ [t]"
    by (auto simp: Template_save_def split: if_splits)
  ultimately show "st = 201" and
    "\<exists>t. templates d' = templates d @ [t] \<and> t_isPublic t \<and> t_createdBy t = p_userId user"
    using st by auto
next
  fix st msg e d'
  assume a: "post_admin_templates schema d user body = (Failed st msg e, d')"
  then show "st = 500" and "templates d' = templates d"
    by (auto simp: post_admin_templates_def Template_save_def Template_findById_def
        split: sum.splits if_splits)
qed

theorem admin_created_template_is_public_witness:
  "map_of [(''name'', JStr ''Offer''), (''isPublic'', JBool False)] ''isPublic'' = Some (JBool False)
   \<and> (\<exists>payload d'. post_admin_templates (\<lambda>data. Inr (ex_template ''t9'' True 9)) ex_db
            \<lparr>p_userId = ''u1'', p_role = ''admin'', p_userDoc = ex_admin\<rparr>
            [(''name'', JStr ''Offer''), (''isPublic'', JBool False)] = (Sent 201 payload, d')
        \<and> map t_id (templates d') = [''t1'', ''t2'', ''t3'', ''t9'']
        \<and> t_isPublic (last (templates d'))
        \<and> t_createdBy (last (templates d')) = ''u1'')"
proof -
  let ?schema = "\<lambda>data :: (string \<times> json) list. (Inr (ex_template ''t9'' True 9) :: db_error + string template)"
  let ?user = "\<lparr>p_userId = ''u1'', p_role = ''admin'', p_userDoc = ex_admin\<rparr>"
  let ?body = "[(''name'', JStr ''Offer''), (''isPublic'', JBool False)]"
  let ?t = "(ex_template ''t9'' True 9)\<lparr>t_isPublic := True, t_createdBy := ''u1''\<rparr>"
  let ?d = "ex_db\<lparr>templates := templates ex_db @ [?t]\<rparr>"
  let ?p = "(''Public template created successfully'', Some (populate ?d ?t))"
  have run: "post_admin_templates ?schema ex_db ?user ?body = (Sent 201 ?p, ?d)"
    by (simp add: post_admin_templates_def new_Template_def templateData_def
        Template_save_def Template_findById_def ex_db_def ex_template_def)
  from admin_created_template_is_public [of ?user ?body ?schema ex_db] run
  obtain t where t: "templates ?d = templates ex_db @ [t]" "t_isPublic t" "t_createdBy t = p_userId ?user"
    by blast
  then have lst: "t_isPublic (last (templates ?d))" "t_createdBy (last (templates ?d)) = ''u1''"
    by simp_all
  have ids: "map t_id (templates ?d) = [''t1'', ''t2'', ''t3'', ''t9'']"
    by (simp add: ex_db_def ex_template_def)
  have b: "map_of ?body ''isPublic'' = Some (JBool False)" by simp
  show ?thesis
    by (intro conjI exI [where x = ?p] exI [where x = ?d]) (rule b run ids lst)+
qed

end
